theory Spec2Isabelle
  imports Complex_Main
begin

section \<open>Primitives of the host language and of the store\<close>

text \<open>
  Numbers: the columns are SQLite \<open>REAL\<close> and the Python values are floats. They are
  modelled as \<^typ>\<open>real\<close>: every arithmetic step is exact, so rounding is outside the
  model. Time is a number of microseconds since the epoch; SQLite's \<open>datetime('now')\<close>
  has a resolution of one second, Python's \<open>datetime.utcnow()\<close> of one microsecond.
\<close>

type_synonym timestamp = int

definition sql_now :: "timestamp \<Rightarrow> timestamp" where
  "sql_now now = (now div 1000000) * 1000000"

definition minutes :: "int \<Rightarrow> int" where
  "minutes m = m * 60 * 1000000"

text \<open>\<open>str.upper()\<close>, on the ASCII letters.\<close>

definition upper_char :: "char \<Rightarrow> char" where
  "upper_char c =
     (case map_of (zip ''abcdefghijklmnopqrstuvwxyz'' ''ABCDEFGHIJKLMNOPQRSTUVWXYZ'') c of
        Some u \<Rightarrow> u
      | None \<Rightarrow> c)"

definition upper :: "string \<Rightarrow> string" where
  "upper s = map upper_char s"

text \<open>
  Every exception the services raise. In the source all but the last three are
  \<open>ValueError\<close> with a distinguishing message; \<open>IntegrityError\<close> is raised by SQLite on a
  violated \<open>UNIQUE\<close> or \<open>FOREIGN KEY\<close> constraint, \<open>ZeroDivisionError\<close> by a float
  division by zero, \<open>TypeError\<close> by \<open>from_row(None)\<close>.
\<close>

datatype error =
    InvalidAction
  | SharesNotPositive
  | PriceNotPositive
  | AccountNotFound
  | InsufficientShares
  | OrderNotFound
  | InvalidState
  | NoValidFields
  | PriceUnavailable
  | RateUnavailable
  | IntegrityError
  | ZeroDivisionError
  | TypeError

section \<open>Constants (utils/constants.py)\<close>

definition TRANSACTION_ACTIONS :: "string set" where
  "TRANSACTION_ACTIONS = {''BUY'', ''SELL''}"

definition PRICE_CACHE_TTL_MINUTES :: int where
  "PRICE_CACHE_TTL_MINUTES = 15"

definition FX_CACHE_TTL_MINUTES :: int where
  "FX_CACHE_TTL_MINUTES = 60"

section \<open>Tables (db.py, models.py)\<close>

record account =
  a_market :: string
  a_currency :: string

record holding =
  h_account_id :: nat
  h_ticker :: string
  h_shares :: real
  h_avg_cost :: real

record transaction =
  t_id :: nat
  t_account_id :: nat
  t_ticker :: string
  t_action :: string
  t_shares :: real
  t_price :: real
  t_fee :: real
  t_tax :: real
  t_currency :: string
  t_notes :: "string option"
  t_executed_at :: timestamp

record planned_order =
  o_account_id :: nat
  o_ticker :: string
  o_action :: string
  o_shares :: real
  o_target_price :: "real option"
  o_reason :: "string option"
  o_priority :: string
  o_status :: string
  o_executed_at :: "timestamp option"
  o_linked_transaction_id :: "nat option"

record price_row =
  p_price :: real
  p_currency :: string
  p_fetched_at :: timestamp

record rate_row =
  r_rate :: real
  r_fetched_at :: timestamp

text \<open>
  The store. A table whose rows are only ever reached through a unique key is a map
  from that key (\<open>accounts\<close> and \<open>planned_orders\<close> by id, \<open>cash_positions\<close> by
  (account, currency), the two caches by their natural key). \<open>holdings\<close> is enumerated by
  the reconciliation and \<open>transactions\<close> is an append-only log, so both are lists of rows.
  Surrogate ids and the \<open>created_at\<close>/\<open>updated_at\<close> columns of holdings and cash
  positions are left out: no service reads them.
\<close>

record db =
  accounts :: "nat \<rightharpoonup> account"
  holdings :: "holding list"
  cash_positions :: "(nat \<times> string) \<rightharpoonup> real"
  transactions :: "transaction list"
  planned_orders :: "nat \<rightharpoonup> planned_order"
  price_cache :: "string \<rightharpoonup> price_row"
  exchange_rates :: "(string \<times> string) \<rightharpoonup> rate_row"

text \<open>
  \<open>get_connection\<close>: the body runs on a working copy of the store; if it returns, the
  copy is committed, if it raises, the copy is dropped (rollback) and the exception
  propagates.
\<close>

definition get_connection :: "db \<Rightarrow> (db \<Rightarrow> error + (db \<times> 'a)) \<Rightarrow> db \<times> (error + 'a)" where
  "get_connection d body =
     (case body d of
        Inl e \<Rightarrow> (d, Inl e)
      | Inr (conn, r) \<Rightarrow> (conn, Inr r))"

subsection \<open>SQL statements on \<open>holdings\<close>\<close>

definition holding_at :: "nat \<Rightarrow> string \<Rightarrow> holding \<Rightarrow> bool" where
  "holding_at account_id ticker h \<longleftrightarrow> h_account_id h = account_id \<and> h_ticker h = ticker"

text \<open>\<open>SELECT * FROM holdings WHERE account_id = ? AND ticker = ?\<close>, \<open>fetchone()\<close>.\<close>

definition select_holding :: "db \<Rightarrow> nat \<Rightarrow> string \<Rightarrow> holding option" where
  "select_holding conn account_id ticker = find (holding_at account_id ticker) (holdings conn)"

text \<open>\<open>UPDATE holdings SET ... WHERE account_id = ? AND ticker = ?\<close>.\<close>

definition update_holding :: "db \<Rightarrow> nat \<Rightarrow> string \<Rightarrow> (holding \<Rightarrow> holding) \<Rightarrow> db" where
  "update_holding conn account_id ticker f =
     conn\<lparr>holdings := map (\<lambda>h. if holding_at account_id ticker h then f h else h) (holdings conn)\<rparr>"

text \<open>\<open>DELETE FROM holdings WHERE account_id = ? AND ticker = ?\<close>.\<close>

definition delete_holding :: "db \<Rightarrow> nat \<Rightarrow> string \<Rightarrow> db" where
  "delete_holding conn account_id ticker =
     conn\<lparr>holdings := filter (\<lambda>h. \<not> holding_at account_id ticker h) (holdings conn)\<rparr>"

text \<open>
  \<open>INSERT INTO holdings (account_id, ticker, shares, avg_cost)\<close>: fails on an unknown
  account (\<open>PRAGMA foreign_keys = ON\<close>) and on an existing (account, ticker) row
  (\<open>UNIQUE(account_id, ticker)\<close>).
\<close>

definition insert_holding :: "db \<Rightarrow> nat \<Rightarrow> string \<Rightarrow> real \<Rightarrow> real \<Rightarrow> error + db" where
  "insert_holding conn account_id ticker shares avg_cost =
     (if accounts conn account_id = None then Inl IntegrityError
      else if select_holding conn account_id ticker \<noteq> None then Inl IntegrityError
      else Inr (conn\<lparr>holdings := holdings conn @
             [\<lparr>h_account_id = account_id, h_ticker = ticker,
               h_shares = shares, h_avg_cost = avg_cost\<rparr>]\<rparr>))"

section \<open>Account service\<close>

definition get_account :: "db \<Rightarrow> nat \<Rightarrow> error + account" where
  "get_account d account_id =
     (case accounts d account_id of
        None \<Rightarrow> Inl AccountNotFound
      | Some a \<Rightarrow> Inr a)"

section \<open>Holding service\<close>

definition update_holding_from_trade ::
  "db \<Rightarrow> nat \<Rightarrow> string \<Rightarrow> string \<Rightarrow> real \<Rightarrow> real \<Rightarrow> error + db" where
  "update_holding_from_trade conn account_id ticker0 action shares price =
     (let ticker = upper ticker0;
          existing = select_holding conn account_id ticker
      in if action = ''BUY'' then
           (case existing of
              Some ex \<Rightarrow>
                (let old_shares = h_shares ex;
                     old_cost = h_avg_cost ex;
                     new_shares = old_shares + shares
                 in if new_shares = 0 then Inl ZeroDivisionError
                    else Inr (update_holding conn account_id ticker
                           (\<lambda>h. h\<lparr>h_shares := new_shares,
                                  h_avg_cost :=
                                    ((old_shares * old_cost) + (shares * price)) / new_shares\<rparr>)))
            | None \<Rightarrow> insert_holding conn account_id ticker shares price)
         else if action = ''SELL'' then
           (case existing of
              None \<Rightarrow> Inl InsufficientShares
            | Some ex \<Rightarrow>
                if h_shares ex < shares then Inl InsufficientShares
                else (let new_shares = h_shares ex - shares
                      in if new_shares = 0 then Inr (delete_holding conn account_id ticker)
                         else Inr (update_holding conn account_id ticker
                                (\<lambda>h. h\<lparr>h_shares := new_shares\<rparr>))))
         else Inr conn)"

section \<open>Cash service\<close>

text \<open>
  \<open>adjust_cash\<close>: the \<open>INSERT\<close> of a first position is subject to the foreign key on
  the account.
\<close>

definition adjust_cash :: "db \<Rightarrow> nat \<Rightarrow> string \<Rightarrow> real \<Rightarrow> error + db" where
  "adjust_cash conn account_id currency0 amount =
     (let currency = upper currency0
      in case cash_positions conn (account_id, currency) of
           Some balance \<Rightarrow>
             Inr (conn\<lparr>cash_positions :=
                    (cash_positions conn)((account_id, currency) \<mapsto> balance + amount)\<rparr>)
         | None \<Rightarrow>
             if accounts conn account_id = None then Inl IntegrityError
             else Inr (conn\<lparr>cash_positions :=
                    (cash_positions conn)((account_id, currency) \<mapsto> amount)\<rparr>))"

section \<open>Transaction service\<close>

text \<open>
  \<open>INSERT INTO transactions\<close>: the id is the \<open>AUTOINCREMENT\<close> key, one more than the
  largest id in the log; the row read back by \<open>lastrowid\<close> is the row just inserted.
\<close>

definition next_transaction_id :: "db \<Rightarrow> nat" where
  "next_transaction_id conn = Suc (fold max (map t_id (transactions conn)) 0)"

definition insert_transaction :: "db \<Rightarrow> transaction \<Rightarrow> error + (db \<times> transaction)" where
  "insert_transaction conn row =
     (if accounts conn (t_account_id row) = None then Inl IntegrityError
      else (let tx = row\<lparr>t_id := next_transaction_id conn\<rparr>
            in Inr (conn\<lparr>transactions := transactions conn @ [tx]\<rparr>, tx)))"

definition cash_change_of :: "string \<Rightarrow> real \<Rightarrow> real \<Rightarrow> real \<Rightarrow> real \<Rightarrow> real" where
  "cash_change_of action shares price fee tax =
     (let total_cost = shares * price
      in if action = ''BUY'' then - (total_cost + fee + tax)
         else total_cost - fee - tax)"

definition record_transaction ::
  "db \<Rightarrow> timestamp \<Rightarrow> nat \<Rightarrow> string \<Rightarrow> string \<Rightarrow> real \<Rightarrow> real \<Rightarrow> real \<Rightarrow> real \<Rightarrow>
   timestamp option \<Rightarrow> string option \<Rightarrow> db \<times> (error + transaction)" where
  "record_transaction d now account_id ticker0 action0 shares price fee tax executed_at notes =
     (let action = upper action0;
          ticker = upper ticker0
      in if action \<notin> TRANSACTION_ACTIONS then (d, Inl InvalidAction)
         else if shares \<le> 0 then (d, Inl SharesNotPositive)
         else if price \<le> 0 then (d, Inl PriceNotPositive)
         else
           (case get_account d account_id of
              Inl e \<Rightarrow> (d, Inl e)
            | Inr acct \<Rightarrow>
                (let currency = a_currency acct
                 in get_connection d (\<lambda>conn.
                      case update_holding_from_trade conn account_id ticker action shares price of
                        Inl e \<Rightarrow> Inl e
                      | Inr conn1 \<Rightarrow>
                          (case adjust_cash conn1 account_id currency
                                  (cash_change_of action shares price fee tax) of
                             Inl e \<Rightarrow> Inl e
                           | Inr conn2 \<Rightarrow>
                               insert_transaction conn2
                                 \<lparr>t_id = 0, t_account_id = account_id, t_ticker = ticker,
                                  t_action = action, t_shares = shares, t_price = price,
                                  t_fee = fee, t_tax = tax, t_currency = currency,
                                  t_notes = notes,
                                  t_executed_at =
                                    (case executed_at of
                                       None \<Rightarrow> sql_now now
                                     | Some ts \<Rightarrow> ts)\<rparr>)))))"

section \<open>Order service\<close>

text \<open>Decimal rendering of an id, as the f-string of the transaction note does.\<close>

fun str_nat :: "nat \<Rightarrow> string" where
  "str_nat n =
     (if n < 10 then [''0123456789'' ! n]
      else str_nat (n div 10) @ [''0123456789'' ! (n mod 10)])"

declare str_nat.simps [simp del]

definition order_note :: "nat \<Rightarrow> string" where
  "order_note order_id = ''Executed from planned order #'' @ str_nat order_id"

text \<open>
  \<open>execute_order\<close> has three atomic scopes: a connection that reads the order and checks
  its status, the call of \<open>record_transaction\<close> (its own connection), and a second
  connection that writes the terminal state. The first and the last are named here; the
  clock is read once per call.
\<close>

definition execute_order_check :: "db \<Rightarrow> nat \<Rightarrow> db \<times> (error + planned_order)" where
  "execute_order_check d order_id =
     get_connection d (\<lambda>conn.
       case planned_orders conn order_id of
         None \<Rightarrow> Inl OrderNotFound
       | Some order \<Rightarrow>
           if o_status order \<noteq> ''PENDING'' then Inl InvalidState
           else Inr (conn, order))"

text \<open>
  \<open>UPDATE planned_orders SET status = 'EXECUTED', executed_at = datetime('now'),
  linked_transaction_id = ? WHERE id = ?\<close>, then the row is read back. The statement
  has no condition on the status. \<open>linked_transaction_id\<close> is declared
  \<open>REFERENCES transactions(id)\<close> and foreign keys are enforced, so updating a row with
  an id that is not in the log raises \<open>IntegrityError\<close>; when no row has the order id,
  nothing is updated and nothing is checked.
\<close>

definition execute_order_finalize ::
  "db \<Rightarrow> timestamp \<Rightarrow> nat \<Rightarrow> nat \<Rightarrow> db \<times> (error + planned_order)" where
  "execute_order_finalize d now order_id tx_id =
     get_connection d (\<lambda>conn.
       case (case planned_orders conn order_id of
               None \<Rightarrow> Inr conn
             | Some row \<Rightarrow>
                 if tx_id \<notin> set (map t_id (transactions conn)) then Inl IntegrityError
                 else Inr (conn\<lparr>planned_orders := (planned_orders conn)(order_id \<mapsto>
                        row\<lparr>o_status := ''EXECUTED'',
                            o_executed_at := Some (sql_now now),
                            o_linked_transaction_id := Some tx_id\<rparr>)\<rparr>)) of
         Inl e \<Rightarrow> Inl e
       | Inr conn' \<Rightarrow>
           (case planned_orders conn' order_id of
              None \<Rightarrow> Inl TypeError
            | Some row \<Rightarrow> Inr (conn', row)))"

text \<open>The row the terminal write leaves behind.\<close>

definition executed :: "planned_order \<Rightarrow> timestamp \<Rightarrow> nat \<Rightarrow> planned_order" where
  "executed order now tx_id =
     order\<lparr>o_status := ''EXECUTED'', o_executed_at := Some (sql_now now),
           o_linked_transaction_id := Some tx_id\<rparr>"

text \<open>The part of \<open>execute_order\<close> after the status check, for an order already read.\<close>

definition execute_order_rest ::
  "db \<Rightarrow> timestamp \<Rightarrow> nat \<Rightarrow> planned_order \<Rightarrow> real \<Rightarrow> real \<Rightarrow> real \<Rightarrow>
   db \<times> (error + planned_order)" where
  "execute_order_rest d now order_id order actual_price fee tax =
     (case record_transaction d now (o_account_id order) (o_ticker order) (o_action order)
             (o_shares order) actual_price fee tax None
             (Some (order_note order_id)) of
        (d', Inl e) \<Rightarrow> (d', Inl e)
      | (d', Inr tx) \<Rightarrow> execute_order_finalize d' now order_id (t_id tx))"

definition execute_order ::
  "db \<Rightarrow> timestamp \<Rightarrow> nat \<Rightarrow> real \<Rightarrow> real \<Rightarrow> real \<Rightarrow> db \<times> (error + planned_order)" where
  "execute_order d now order_id actual_price fee tax =
     (case execute_order_check d order_id of
        (d', Inl e) \<Rightarrow> (d', Inl e)
      | (d', Inr order) \<Rightarrow> execute_order_rest d' now order_id order actual_price fee tax)"

definition cancel_order :: "db \<Rightarrow> nat \<Rightarrow> db \<times> (error + planned_order)" where
  "cancel_order d order_id =
     get_connection d (\<lambda>conn.
       case planned_orders conn order_id of
         None \<Rightarrow> Inl OrderNotFound
       | Some row \<Rightarrow>
           if o_status row \<noteq> ''PENDING'' then Inl InvalidState
           else (let conn' = conn\<lparr>planned_orders := (planned_orders conn)(order_id \<mapsto>
                                row\<lparr>o_status := ''CANCELLED''\<rparr>)\<rparr>
                 in case planned_orders conn' order_id of
                      None \<Rightarrow> Inl TypeError
                    | Some row' \<Rightarrow> Inr (conn', row')))"

text \<open>
  The keyword arguments of \<open>update_order\<close>: one optional value per allowed field. A key
  outside the allowed set, or a value \<open>None\<close>, is filtered out by the source before
  anything else happens, so it is the same as an absent field.
\<close>

record order_updates =
  u_ticker :: "string option"
  u_action :: "string option"
  u_shares :: "real option"
  u_target_price :: "real option"
  u_reason :: "string option"
  u_priority :: "string option"

definition no_updates :: "order_updates \<Rightarrow> bool" where
  "no_updates u \<longleftrightarrow>
     u_ticker u = None \<and> u_action u = None \<and> u_shares u = None \<and>
     u_target_price u = None \<and> u_reason u = None \<and> u_priority u = None"

definition apply_updates :: "order_updates \<Rightarrow> planned_order \<Rightarrow> planned_order" where
  "apply_updates u row =
     row\<lparr>o_ticker := (case u_ticker u of None \<Rightarrow> o_ticker row | Some v \<Rightarrow> v),
         o_action := (case u_action u of None \<Rightarrow> o_action row | Some v \<Rightarrow> v),
         o_shares := (case u_shares u of None \<Rightarrow> o_shares row | Some v \<Rightarrow> v),
         o_target_price :=
           (case u_target_price u of None \<Rightarrow> o_target_price row | Some v \<Rightarrow> Some v),
         o_reason := (case u_reason u of None \<Rightarrow> o_reason row | Some v \<Rightarrow> Some v),
         o_priority := (case u_priority u of None \<Rightarrow> o_priority row | Some v \<Rightarrow> v)\<rparr>"

definition update_order :: "db \<Rightarrow> nat \<Rightarrow> order_updates \<Rightarrow> db \<times> (error + planned_order)" where
  "update_order d order_id updates =
     (if no_updates updates then (d, Inl NoValidFields)
      else get_connection d (\<lambda>conn.
             case planned_orders conn order_id of
               None \<Rightarrow> Inl OrderNotFound
             | Some row \<Rightarrow>
                 if o_status row \<noteq> ''PENDING'' then Inl InvalidState
                 else (let conn' = conn\<lparr>planned_orders := (planned_orders conn)(order_id \<mapsto>
                                      apply_updates updates row)\<rparr>
                       in case planned_orders conn' order_id of
                            None \<Rightarrow> Inl TypeError
                          | Some row' \<Rightarrow> Inr (conn', row'))))"

text \<open>
  A schedule of two \<open>execute_order\<close> calls on the same order in which both status checks
  run before either call records its trade: call A then runs to its end, then call B.
  Each call is the sequence of atomic scopes of \<open>execute_order\<close>, in its own order.
\<close>

definition execute_order_interleaved ::
  "db \<Rightarrow> timestamp \<Rightarrow> nat \<Rightarrow> real \<Rightarrow> real \<Rightarrow> real \<Rightarrow>
   db \<times> (error + planned_order) \<times> (error + planned_order)" where
  "execute_order_interleaved d now order_id actual_price fee tax =
     (case execute_order_check d order_id of (d1, checkA) \<Rightarrow>
      case execute_order_check d1 order_id of (d2, checkB) \<Rightarrow>
      case (case checkA of
              Inl e \<Rightarrow> (d2, Inl e)
            | Inr order \<Rightarrow> execute_order_rest d2 now order_id order actual_price fee tax)
      of (d3, resultA) \<Rightarrow>
      case (case checkB of
              Inl e \<Rightarrow> (d3, Inl e)
            | Inr order \<Rightarrow> execute_order_rest d3 now order_id order actual_price fee tax)
      of (d4, resultB) \<Rightarrow> (d4, resultA, resultB))"

section \<open>Price and exchange-rate services\<close>

text \<open>
  The market data source (\<open>yf.Ticker(symbol).fast_info\<close>) is a parameter: a function from
  the symbol to the three entries the services read, each possibly absent.
\<close>

record fast_info =
  lastPrice :: "real option"
  previousClose :: "real option"
  info_currency :: "string option"

text \<open>Python's \<open>a or b\<close> on optional floats: \<open>None\<close> and \<open>0.0\<close> are falsy.\<close>

definition py_or :: "real option \<Rightarrow> real option \<Rightarrow> real option" where
  "py_or a b =
     (case a of
        None \<Rightarrow> b
      | Some x \<Rightarrow> if x = 0 then b else Some x)"

record price_result =
  res_ticker :: string
  res_price :: real
  res_currency :: string
  res_cached :: bool

definition get_cached_price :: "db \<Rightarrow> timestamp \<Rightarrow> string \<Rightarrow> (real \<times> string) option" where
  "get_cached_price d now ticker =
     (case price_cache d ticker of
        None \<Rightarrow> None
      | Some row \<Rightarrow>
          if now - p_fetched_at row > minutes PRICE_CACHE_TTL_MINUTES then None
          else Some (p_price row, p_currency row))"

text \<open>\<open>INSERT ... ON CONFLICT(ticker) DO UPDATE\<close>: one row per ticker.\<close>

definition update_price_cache :: "db \<Rightarrow> timestamp \<Rightarrow> string \<Rightarrow> real \<Rightarrow> string \<Rightarrow> db" where
  "update_price_cache d now ticker price currency =
     d\<lparr>price_cache := (price_cache d)(ticker \<mapsto>
          \<lparr>p_price = price, p_currency = currency, p_fetched_at = sql_now now\<rparr>)\<rparr>"

definition fetch_price ::
  "db \<Rightarrow> timestamp \<Rightarrow> (string \<Rightarrow> fast_info) \<Rightarrow> string \<Rightarrow> db \<times> (error + price_result)" where
  "fetch_price d now yf ticker0 =
     (let ticker = upper ticker0
      in case get_cached_price d now ticker of
           Some (price, currency) \<Rightarrow>
             (d, Inr \<lparr>res_ticker = ticker, res_price = price, res_currency = currency,
                      res_cached = True\<rparr>)
         | None \<Rightarrow>
             (let info = yf ticker
              in case py_or (lastPrice info) (previousClose info) of
                   None \<Rightarrow> (d, Inl PriceUnavailable)
                 | Some price \<Rightarrow>
                     (let currency = (case info_currency info of None \<Rightarrow> ''USD'' | Some c \<Rightarrow> c)
                      in (update_price_cache d now ticker price currency,
                          Inr \<lparr>res_ticker = ticker, res_price = price, res_currency = currency,
                               res_cached = False\<rparr>))))"

definition fx_ticker :: "string \<Rightarrow> string \<Rightarrow> string" where
  "fx_ticker from_currency to_currency = from_currency @ to_currency @ ''=X''"

definition get_cached_rate :: "db \<Rightarrow> timestamp \<Rightarrow> string \<Rightarrow> string \<Rightarrow> real option" where
  "get_cached_rate d now from_currency to_currency =
     (case exchange_rates d (from_currency, to_currency) of
        None \<Rightarrow> None
      | Some row \<Rightarrow>
          if now - r_fetched_at row > minutes FX_CACHE_TTL_MINUTES then None
          else Some (r_rate row))"

definition update_rate_cache :: "db \<Rightarrow> timestamp \<Rightarrow> string \<Rightarrow> string \<Rightarrow> real \<Rightarrow> db" where
  "update_rate_cache d now from_currency to_currency rate =
     d\<lparr>exchange_rates := (exchange_rates d)((from_currency, to_currency) \<mapsto>
          \<lparr>r_rate = rate, r_fetched_at = sql_now now\<rparr>)\<rparr>"

definition fetch_rate ::
  "db \<Rightarrow> timestamp \<Rightarrow> (string \<Rightarrow> fast_info) \<Rightarrow> string \<Rightarrow> string \<Rightarrow> db \<times> (error + real)" where
  "fetch_rate d now yf from0 to0 =
     (let from_currency = upper from0;
          to_currency = upper to0
      in if from_currency = to_currency then (d, Inr 1)
         else
           (case get_cached_rate d now from_currency to_currency of
              Some cached \<Rightarrow> (d, Inr cached)
            | None \<Rightarrow>
                (let info = yf (fx_ticker from_currency to_currency)
                 in case py_or (lastPrice info) (previousClose info) of
                      None \<Rightarrow> (d, Inl RateUnavailable)
                    | Some rate \<Rightarrow>
                        (update_rate_cache d now from_currency to_currency rate, Inr rate))))"

section \<open>Manual holdings and reconciliation (holding_service.py, sync_service.py)\<close>

definition add_holding ::
  "db \<Rightarrow> nat \<Rightarrow> string \<Rightarrow> real \<Rightarrow> real \<Rightarrow> db \<times> (error + holding)" where
  "add_holding d account_id ticker0 shares avg_cost =
     (let ticker = upper ticker0
      in get_connection d (\<lambda>conn.
           case (case select_holding conn account_id ticker of
                   Some existing \<Rightarrow>
                     (let old_shares = h_shares existing;
                          old_cost = h_avg_cost existing;
                          new_total_shares = old_shares + shares;
                          new_avg_cost =
                            (if new_total_shares > 0
                             then ((old_shares * old_cost) + (shares * avg_cost)) / new_total_shares
                             else 0)
                      in Inr (update_holding conn account_id ticker
                            (\<lambda>h. h\<lparr>h_shares := new_total_shares, h_avg_cost := new_avg_cost\<rparr>)))
                 | None \<Rightarrow> insert_holding conn account_id ticker shares avg_cost) of
             Inl e \<Rightarrow> Inl e
           | Inr conn' \<Rightarrow>
               (case select_holding conn' account_id ticker of
                  None \<Rightarrow> Inl TypeError
                | Some row \<Rightarrow> Inr (conn', row))))"

text \<open>
  \<open>SELECT * FROM holdings WHERE account_id = ? AND shares > 0 ORDER BY ticker\<close>. The
  order is left out: the reconciliation, the only caller modelled, builds a dictionary
  from the rows.
\<close>

definition list_holdings :: "db \<Rightarrow> nat \<Rightarrow> holding list" where
  "list_holdings d account_id =
     filter (\<lambda>h. h_account_id h = account_id \<and> h_shares h > 0) (holdings d)"

definition remove_holding :: "db \<Rightarrow> nat \<Rightarrow> string \<Rightarrow> db" where
  "remove_holding d account_id ticker = delete_holding d account_id (upper ticker)"

record broker_item =
  i_ticker :: string
  i_shares :: real
  i_avg_cost :: real

record sync_counts =
  added :: nat
  updated :: nat
  removed :: nat

text \<open>
  \<open>{h.ticker: h for h in existing}\<close>: a later row replaces an earlier one with the same
  ticker. The keys are visited once each.
\<close>

definition dict_by_ticker :: "holding list \<Rightarrow> (string \<rightharpoonup> holding)" where
  "dict_by_ticker hs = map_of (rev (map (\<lambda>h. (h_ticker h, h)) hs))"

definition dict_keys :: "holding list \<Rightarrow> string list" where
  "dict_keys hs = remdups (map h_ticker hs)"

text \<open>
  The loop over the snapshot, inside one connection. Its state is the working store, the
  set \<open>broker_tickers\<close> and the two counters. \<open>existing_map\<close> is the dictionary read before
  the loop; the loop never refreshes it.
\<close>

fun sync_items ::
  "(string \<rightharpoonup> holding) \<Rightarrow> nat \<Rightarrow> broker_item list \<Rightarrow> db \<Rightarrow> string set \<Rightarrow> nat \<Rightarrow> nat \<Rightarrow>
   error + (db \<times> string set \<times> nat \<times> nat)" where
  "sync_items existing_map account_id [] conn broker_tickers n_added n_updated =
     Inr (conn, broker_tickers, n_added, n_updated)"
| "sync_items existing_map account_id (item # items) conn broker_tickers n_added n_updated =
     (let ticker = upper (i_ticker item);
          shares = i_shares item;
          avg_cost = i_avg_cost item;
          broker_tickers' = insert ticker broker_tickers
      in if shares \<le> 0 then
           sync_items existing_map account_id items conn broker_tickers' n_added n_updated
         else
           (case existing_map ticker of
              Some old \<Rightarrow>
                if h_shares old \<noteq> shares \<or> \<bar>h_avg_cost old - avg_cost\<bar> > 1 / 100 then
                  sync_items existing_map account_id items
                    (update_holding conn account_id ticker
                       (\<lambda>h. h\<lparr>h_shares := shares, h_avg_cost := avg_cost\<rparr>))
                    broker_tickers' n_added (n_updated + 1)
                else
                  sync_items existing_map account_id items conn broker_tickers' n_added n_updated
            | None \<Rightarrow>
                (case insert_holding conn account_id ticker shares avg_cost of
                   Inl e \<Rightarrow> Inl e
                 | Inr conn' \<Rightarrow>
                     sync_items existing_map account_id items conn' broker_tickers'
                       (n_added + 1) n_updated)))"

text \<open>The loop that removes the holdings the snapshot is silent about.\<close>

fun remove_missing :: "db \<Rightarrow> nat \<Rightarrow> string list \<Rightarrow> string set \<Rightarrow> nat \<Rightarrow> db \<times> nat" where
  "remove_missing d account_id [] broker_tickers n_removed = (d, n_removed)"
| "remove_missing d account_id (ticker # tickers) broker_tickers n_removed =
     (if ticker \<notin> broker_tickers then
        remove_missing (remove_holding d account_id ticker) account_id tickers broker_tickers
          (n_removed + 1)
      else remove_missing d account_id tickers broker_tickers n_removed)"

definition sync_broker_holdings ::
  "db \<Rightarrow> nat \<Rightarrow> broker_item list \<Rightarrow> db \<times> (error + sync_counts)" where
  "sync_broker_holdings d account_id holdings_data =
     (case get_account d account_id of
        Inl e \<Rightarrow> (d, Inl e)
      | Inr account \<Rightarrow>
          (let existing = list_holdings d account_id;
               existing_map = dict_by_ticker existing
           in case get_connection d (\<lambda>conn.
                     case sync_items existing_map account_id holdings_data conn {} 0 0 of
                       Inl e \<Rightarrow> Inl e
                     | Inr (conn', loop_result) \<Rightarrow> Inr (conn', loop_result)) of
                (d1, Inl e) \<Rightarrow> (d1, Inl e)
              | (d1, Inr (broker_tickers, n_added, n_updated)) \<Rightarrow>
                  (case remove_missing d1 account_id (dict_keys existing) broker_tickers 0 of
                     (d2, n_removed) \<Rightarrow>
                       (d2, Inr \<lparr>added = n_added, updated = n_updated, removed = n_removed\<rparr>))))"

text \<open>
  Invariants of the \<open>holdings\<close> table: the schema's \<open>UNIQUE(account_id, ticker)\<close>, the
  upper-case tickers every writer stores, and strictly positive share counts.
\<close>

definition holding_key :: "holding \<Rightarrow> nat \<times> string" where
  "holding_key h = (h_account_id h, h_ticker h)"

definition wf_holdings :: "db \<Rightarrow> bool" where
  "wf_holdings d \<longleftrightarrow>
     distinct (map holding_key (holdings d)) \<and>
     (\<forall>h \<in> set (holdings d). upper (h_ticker h) = h_ticker h)"

definition positive_holdings :: "db \<Rightarrow> bool" where
  "positive_holdings d \<longleftrightarrow> (\<forall>h \<in> set (holdings d). 0 < h_shares h)"

definition snapshot_tickers :: "broker_item list \<Rightarrow> string list" where
  "snapshot_tickers items = map (\<lambda>i. upper (i_ticker i)) (filter (\<lambda>i. 0 < i_shares i) items)"


section \<open>Test drivers and example stores\<close>

text \<open>A sequence of buys of one ticker, applied in order; the first failure stops it.\<close>

fun apply_buys :: "db \<Rightarrow> nat \<Rightarrow> string \<Rightarrow> (real \<times> real) list \<Rightarrow> error + db" where
  "apply_buys conn account_id ticker [] = Inr conn"
| "apply_buys conn account_id ticker ((shares, price) # buys) =
     (case update_holding_from_trade conn account_id ticker ''BUY'' shares price of
        Inl e \<Rightarrow> Inl e
      | Inr conn' \<Rightarrow> apply_buys conn' account_id ticker buys)"

definition total_shares :: "(real \<times> real) list \<Rightarrow> real" where
  "total_shares buys = sum_list (map fst buys)"

definition total_paid :: "(real \<times> real) list \<Rightarrow> real" where
  "total_paid buys = sum_list (map (\<lambda>(shares, price). shares * price) buys)"

text \<open>The row that \<open>record_transaction\<close> passes to its \<open>INSERT\<close>.\<close>

definition new_transaction ::
  "nat \<Rightarrow> string \<Rightarrow> string \<Rightarrow> real \<Rightarrow> real \<Rightarrow> real \<Rightarrow> real \<Rightarrow> string \<Rightarrow> string option \<Rightarrow>
   timestamp \<Rightarrow> transaction" where
  "new_transaction a t act s p fee tax cur notes stamp =
     \<lparr>t_id = 0, t_account_id = a, t_ticker = t, t_action = act, t_shares = s, t_price = p,
      t_fee = fee, t_tax = tax, t_currency = cur, t_notes = notes, t_executed_at = stamp\<rparr>"

definition example_db :: db where
  "example_db =
     \<lparr>accounts = [1 \<mapsto> \<lparr>a_market = ''TW'', a_currency = ''TWD''\<rparr>],
      holdings = [\<lparr>h_account_id = 1, h_ticker = ''2330.TW'', h_shares = 1000, h_avg_cost = 580.5\<rparr>],
      cash_positions = [(1, ''TWD'') \<mapsto> 100000],
      transactions = [],
      planned_orders = Map.empty,
      price_cache = Map.empty,
      exchange_rates = Map.empty\<rparr>"

definition empty_db :: db where
  "empty_db =
     \<lparr>accounts = [1 \<mapsto> \<lparr>a_market = ''US'', a_currency = ''USD''\<rparr>],
      holdings = [],
      cash_positions = Map.empty,
      transactions = [],
      planned_orders = Map.empty,
      price_cache = Map.empty,
      exchange_rates = Map.empty\<rparr>"


definition order_db :: db where
  "order_db =
     example_db\<lparr>planned_orders :=
       [7 \<mapsto> \<lparr>o_account_id = 1, o_ticker = ''2330.TW'', o_action = ''BUY'', o_shares = 100,
               o_target_price = Some 550, o_reason = None, o_priority = ''NORMAL'',
               o_status = ''PENDING'', o_executed_at = None,
               o_linked_transaction_id = None\<rparr>,
        8 \<mapsto> \<lparr>o_account_id = 1, o_ticker = ''2330.TW'', o_action = ''SELL'', o_shares = 5,
               o_target_price = None, o_reason = None, o_priority = ''LOW'',
               o_status = ''CANCELLED'', o_executed_at = None,
               o_linked_transaction_id = None\<rparr>]\<rparr>"

definition quote_source :: "string \<Rightarrow> fast_info" where
  "quote_source symbol =
     (if symbol = ''AAPL'' then
        \<lparr>lastPrice = Some 180, previousClose = Some 179, info_currency = Some ''USD''\<rparr>
      else if symbol = ''USDTWD=X'' then
        \<lparr>lastPrice = None, previousClose = Some 31.5, info_currency = None\<rparr>
      else \<lparr>lastPrice = None, previousClose = None, info_currency = None\<rparr>)"

definition cache_db :: db where
  "cache_db =
     empty_db\<lparr>price_cache :=
                [''AAPL'' \<mapsto> \<lparr>p_price = 170, p_currency = ''USD'', p_fetched_at = 5000000\<rparr>],
              exchange_rates :=
                [(''USD'', ''TWD'') \<mapsto> \<lparr>r_rate = 31, r_fetched_at = 5000000\<rparr>]\<rparr>"

definition aapl_snapshot :: "broker_item list" where
  "aapl_snapshot = [\<lparr>i_ticker = ''AAPL'', i_shares = 10, i_avg_cost = 178.5\<rparr>]"

definition dup_db :: db where
  "dup_db =
     empty_db\<lparr>holdings :=
       [\<lparr>h_account_id = 1, h_ticker = ''AAPL'', h_shares = 10, h_avg_cost = 100\<rparr>]\<rparr>"

definition dup_snapshot :: "broker_item list" where
  "dup_snapshot =
     [\<lparr>i_ticker = ''AAPL'', i_shares = 10, i_avg_cost = 100\<rparr>,
      \<lparr>i_ticker = ''AAPL'', i_shares = 5, i_avg_cost = 100\<rparr>]"

text \<open>The order store after one trade of 100 shares has been recorded.\<close>

definition logged_db :: db where
  "logged_db =
     order_db\<lparr>transactions :=
       [\<lparr>t_id = 1, t_account_id = 1, t_ticker = ''2330.TW'', t_action = ''BUY'',
         t_shares = 100, t_price = 560, t_fee = 20, t_tax = 0, t_currency = ''TWD'',
         t_notes = None, t_executed_at = 1000000\<rparr>]\<rparr>"


section \<open>Facts about the primitives\<close>

lemma upper_char_idem: "upper_char (upper_char c) = upper_char c"
  by (simp add: upper_char_def)

lemma upper_idem: "upper (upper s) = upper s"
  by (simp add: upper_def upper_char_idem)

lemma select_update_same:
  assumes "\<And>h. holding_at a t (f h) = holding_at a t h"
  shows "select_holding (update_holding conn a t f) a t = map_option f (select_holding conn a t)"
proof -
  have "find (holding_at a t) (map (\<lambda>h. if holding_at a t h then f h else h) hs)
          = map_option f (find (holding_at a t) hs)" for hs
    by (induction hs) (simp_all add: assms)
  then show ?thesis
    by (simp add: select_holding_def update_holding_def)
qed

lemma select_delete_same: "select_holding (delete_holding conn a t) a t = None"
  by (simp add: select_holding_def delete_holding_def find_None_iff)

lemma find_append_eq:
  "find P (xs @ ys) = (case find P xs of None \<Rightarrow> find P ys | Some x \<Rightarrow> Some x)"
  by (induction xs) simp_all

lemma select_insert_same:
  "insert_holding conn a t s c = Inr conn' \<Longrightarrow>
   select_holding conn' a t = Some \<lparr>h_account_id = a, h_ticker = t, h_shares = s, h_avg_cost = c\<rparr>"
  by (auto simp: insert_holding_def select_holding_def find_append_eq holding_at_def split: if_splits)

lemma buy_new:
  assumes "select_holding conn a (upper t) = None" "accounts conn a \<noteq> None"
  shows "\<exists>conn'. update_holding_from_trade conn a t ''BUY'' shares price = Inr conn' \<and>
           select_holding conn' a (upper t) =
             Some \<lparr>h_account_id = a, h_ticker = upper t, h_shares = shares, h_avg_cost = price\<rparr>"
proof -
  obtain conn' where i: "insert_holding conn a (upper t) shares price = Inr conn'"
    using assms by (auto simp: insert_holding_def)
  have "update_holding_from_trade conn a t ''BUY'' shares price = Inr conn'"
    using assms i by (simp add: update_holding_from_trade_def)
  with select_insert_same[OF i] show ?thesis by simp
qed

lemma buy_existing:
  assumes "select_holding conn a (upper t) = Some ex" "h_shares ex + shares \<noteq> 0"
  shows "\<exists>conn'. update_holding_from_trade conn a t ''BUY'' shares price = Inr conn' \<and>
           select_holding conn' a (upper t) =
             Some (ex\<lparr>h_shares := h_shares ex + shares,
                      h_avg_cost := (h_shares ex * h_avg_cost ex + shares * price)
                                      / (h_shares ex + shares)\<rparr>)"
  using assms
  by (simp add: update_holding_from_trade_def Let_def select_update_same holding_at_def)


lemma apply_buys_existing:
  assumes "select_holding conn a (upper t) = Some ex" "0 < h_shares ex"
      and "\<forall>(s, p) \<in> set buys. 0 < s"
  shows "\<exists>conn' h. apply_buys conn a t buys = Inr conn' \<and>
           select_holding conn' a (upper t) = Some h \<and>
           h_shares h = h_shares ex + total_shares buys \<and>
           h_avg_cost h = (h_shares ex * h_avg_cost ex + total_paid buys)
                            / (h_shares ex + total_shares buys)"
  using assms
proof (induction buys arbitrary: conn ex)
  case Nil
  then show ?case by (simp add: total_shares_def total_paid_def)
next
  case (Cons b buys)
  obtain s p where b: "b = (s, p)" by (cases b)
  from Cons.prems b have s: "0 < s" by simp
  with Cons.prems have nz: "h_shares ex + s \<noteq> 0" by simp
  let ?ex' = "ex\<lparr>h_shares := h_shares ex + s,
                   h_avg_cost := (h_shares ex * h_avg_cost ex + s * p) / (h_shares ex + s)\<rparr>"
  from buy_existing[OF Cons.prems(1) nz, of p]
  obtain c1 where c1: "update_holding_from_trade conn a t ''BUY'' s p = Inr c1"
    and sel: "select_holding c1 a (upper t) = Some ?ex'"
    by blast
  have pos: "0 < h_shares ?ex'" using s Cons.prems(2) by simp
  have rest: "\<forall>(s, p) \<in> set buys. 0 < s" using Cons.prems(3) by simp
  from Cons.IH[OF sel pos rest]
  obtain conn' h where r: "apply_buys c1 a t buys = Inr conn'"
    "select_holding conn' a (upper t) = Some h"
    "h_shares h = h_shares ?ex' + total_shares buys"
    "h_avg_cost h = (h_shares ?ex' * h_avg_cost ?ex' + total_paid buys)
                      / (h_shares ?ex' + total_shares buys)"
    by blast
  have "apply_buys conn a t (b # buys) = Inr conn'"
    using b c1 r(1) by simp
  moreover have "h_shares h = h_shares ex + total_shares (b # buys)"
    using r(3) b by (simp add: total_shares_def)
  moreover have "h_avg_cost h = (h_shares ex * h_avg_cost ex + total_paid (b # buys))
                            / (h_shares ex + total_shares (b # buys))"
    using r(4) b nz by (simp add: total_shares_def total_paid_def add.assoc)
  ultimately show ?case using r(2) by blast
qed

lemma apply_buys_fresh:
  assumes "select_holding conn a (upper t) = None" "accounts conn a \<noteq> None"
      and "buys \<noteq> []" "\<forall>(s, p) \<in> set buys. 0 < s"
  shows "\<exists>conn' h. apply_buys conn a t buys = Inr conn' \<and>
           select_holding conn' a (upper t) = Some h \<and>
           h_shares h = total_shares buys \<and>
           h_avg_cost h = total_paid buys / total_shares buys"
proof -
  obtain s p rest where b: "buys = (s, p) # rest"
    using assms(3) by (cases buys) auto
  have s: "0 < s" using assms(4) b by simp
  let ?ex = "\<lparr>h_account_id = a, h_ticker = upper t, h_shares = s, h_avg_cost = p\<rparr>"
  from buy_new[OF assms(1,2), of s p]
  obtain c1 where c1: "update_holding_from_trade conn a t ''BUY'' s p = Inr c1"
    and sel: "select_holding c1 a (upper t) = Some ?ex"
    by blast
  have "\<forall>(s, p) \<in> set rest. 0 < s" using assms(4) b by simp
  from apply_buys_existing[OF sel _ this] s
  obtain conn' h where r: "apply_buys c1 a t rest = Inr conn'"
    "select_holding conn' a (upper t) = Some h"
    "h_shares h = s + total_shares rest"
    "h_avg_cost h = (s * p + total_paid rest) / (s + total_shares rest)"
    by auto
  have "apply_buys conn a t buys = Inr conn'" using b c1 r(1) by simp
  moreover have "h_shares h = total_shares buys" using r(3) b by (simp add: total_shares_def)
  moreover have "h_avg_cost h = total_paid buys / total_shares buys"
    using r(4) b by (simp add: total_shares_def total_paid_def)
  ultimately show ?thesis using r(2) by blast
qed

lemma sell_existing:
  assumes "select_holding conn a (upper t) = Some ex" "shares \<le> h_shares ex"
  shows "\<exists>conn'. update_holding_from_trade conn a t ''SELL'' shares price = Inr conn' \<and>
           select_holding conn' a (upper t) =
             (if h_shares ex - shares = 0 then None
              else Some (ex\<lparr>h_shares := h_shares ex - shares\<rparr>))"
  using assms
  by (simp add: update_holding_from_trade_def Let_def select_update_same select_delete_same
        holding_at_def)


lemma record_transaction_Inr_iff:
  "record_transaction d now a t act s p fee tax stamp n = (d', Inr tx) \<longleftrightarrow>
     (\<exists>acct c1 c2. upper act \<in> TRANSACTION_ACTIONS \<and> 0 < s \<and> 0 < p \<and>
        accounts d a = Some acct \<and>
        update_holding_from_trade d a (upper t) (upper act) s p = Inr c1 \<and>
        adjust_cash c1 a (a_currency acct) (cash_change_of (upper act) s p fee tax) = Inr c2 \<and>
        insert_transaction c2
          (new_transaction a (upper t) (upper act) s p fee tax (a_currency acct) n
             (case stamp of None \<Rightarrow> sql_now now | Some ts \<Rightarrow> ts)) = Inr (d', tx))"
  by (auto simp: record_transaction_def Let_def get_account_def get_connection_def
        new_transaction_def split: option.splits sum.splits)

lemma trade_frame:
  "update_holding_from_trade conn a t act s p = Inr c1 \<Longrightarrow>
     accounts c1 = accounts conn \<and> cash_positions c1 = cash_positions conn \<and>
     transactions c1 = transactions conn \<and> planned_orders c1 = planned_orders conn \<and>
     price_cache c1 = price_cache conn \<and> exchange_rates c1 = exchange_rates conn"
  by (auto simp: update_holding_from_trade_def Let_def insert_holding_def update_holding_def
        delete_holding_def split: if_splits option.splits)

lemma adjust_cash_Inr:
  "adjust_cash conn a cur amount = Inr c2 \<Longrightarrow>
     c2 = conn\<lparr>cash_positions := (cash_positions conn)((a, upper cur) \<mapsto>
            (case cash_positions conn (a, upper cur) of None \<Rightarrow> amount | Some b \<Rightarrow> b + amount))\<rparr>"
  by (auto simp: adjust_cash_def Let_def split: option.splits if_splits)

lemma adjust_cash_ok:
  "accounts conn a \<noteq> None \<Longrightarrow> \<exists>c2. adjust_cash conn a cur amount = Inr c2"
  by (auto simp: adjust_cash_def Let_def split: option.splits)

lemma insert_transaction_Inr:
  "insert_transaction conn row = Inr (d', tx) \<Longrightarrow>
     tx = row\<lparr>t_id := next_transaction_id conn\<rparr> \<and> d' = conn\<lparr>transactions := transactions conn @ [tx]\<rparr>"
  by (auto simp: insert_transaction_def Let_def split: if_splits)

lemma insert_transaction_ok:
  "accounts conn (t_account_id row) \<noteq> None \<Longrightarrow> \<exists>d' tx. insert_transaction conn row = Inr (d', tx)"
  by (auto simp: insert_transaction_def Let_def)

lemma sell_insufficient:
  assumes "case select_holding conn a (upper t) of None \<Rightarrow> True | Some row \<Rightarrow> h_shares row < shares"
  shows "update_holding_from_trade conn a t ''SELL'' shares price = Inl InsufficientShares"
  using assms by (auto simp: update_holding_from_trade_def Let_def split: option.splits)

lemma record_transaction_fails_unchanged:
  "record_transaction d now a t act s p fee tax stamp n = (d', Inl e) \<Longrightarrow> d' = d"
  by (auto simp: record_transaction_def Let_def get_connection_def
        split: if_splits sum.splits prod.splits)

lemma sell_without_shares_rolls_back:
  assumes "upper action = ''SELL''"
      and "case select_holding d a (upper t) of None \<Rightarrow> True | Some row \<Rightarrow> h_shares row < shares"
  shows "(\<exists>e. record_transaction d now a t action shares price fee tax stamp n = (d, Inl e)) \<and>
         (0 < shares \<and> 0 < price \<and> accounts d a \<noteq> None \<longrightarrow>
            record_transaction d now a t action shares price fee tax stamp n
              = (d, Inl InsufficientShares))"
proof -
  have u: "update_holding_from_trade d a (upper t) ''SELL'' shares price = Inl InsufficientShares"
    using assms(2) by (intro sell_insufficient) (simp add: upper_idem)
  show ?thesis
    using assms(1) u
    by (auto simp: record_transaction_def Let_def get_connection_def get_account_def
          TRANSACTION_ACTIONS_def split: option.splits)
qed

lemma fold_max_ge: "(a::nat) \<le> fold max xs a \<and> (\<forall>x \<in> set xs. x \<le> fold max xs a)"
proof (induction xs arbitrary: a)
  case Nil
  then show ?case by simp
next
  case (Cons y ys)
  have "max y a \<le> fold max ys (max y a)" "\<forall>x \<in> set ys. x \<le> fold max ys (max y a)"
    using Cons.IH[of "max y a"] by simp_all
  then show ?case by auto
qed

lemma next_transaction_id_fresh: "next_transaction_id d \<notin> t_id ` set (transactions d)"
proof
  assume "next_transaction_id d \<in> t_id ` set (transactions d)"
  then have "next_transaction_id d \<in> set (map t_id (transactions d))" by simp
  then have "next_transaction_id d \<le> fold max (map t_id (transactions d)) 0"
    using fold_max_ge[of 0 "map t_id (transactions d)"] by blast
  then show False by (simp add: next_transaction_id_def)
qed

lemmas lookup_defs = upper_def upper_char_def select_holding_def holding_at_def

lemmas run_defs = record_transaction_def get_account_def get_connection_def
  update_holding_from_trade_def select_holding_def holding_at_def update_holding_def
  delete_holding_def insert_holding_def adjust_cash_def insert_transaction_def
  next_transaction_id_def cash_change_of_def TRANSACTION_ACTIONS_def upper_def upper_char_def
  sql_now_def Let_def


section \<open>Transaction recorder and holding ledger\<close>

text \<open>
  C1. A \<open>SELL\<close> of a ticker the account does not hold, or holds fewer shares of than
  requested, fails, and the store returned is the store the call started from: holdings,
  every cash position and the transaction log are unchanged. Whenever the argument checks
  pass (positive shares and price, known account) the failure is the insufficient-shares
  error.
\<close>

theorem failed_sell_leaves_state_unchanged:
  assumes "upper action = ''SELL''"
      and "case select_holding d a (upper t) of None \<Rightarrow> True | Some row \<Rightarrow> h_shares row < shares"
  shows "(\<exists>e. record_transaction d now a t action shares price fee tax stamp n = (d, Inl e)) \<and>
         (0 < shares \<and> 0 < price \<and> accounts d a \<noteq> None \<longrightarrow>
            record_transaction d now a t action shares price fee tax stamp n
              = (d, Inl InsufficientShares))"
  using assms by (rule sell_without_shares_rolls_back)

theorem failed_sell_leaves_state_unchanged_witness:
  "record_transaction example_db 0 1 ''2330.tw'' ''sell'' 1001 600 20 0 None None
     = (example_db, Inl InsufficientShares) \<and>
   (\<exists>e. record_transaction empty_db 0 1 ''AAPL'' ''SELL'' 1 600 20 0 None None
     = (empty_db, Inl e))"
  using failed_sell_leaves_state_unchanged [where action = "''sell''" and d = example_db and a = 1
      and t = "''2330.tw''" and shares = 1001 and now = 0 and price = 600 and fee = 20 and tax = 0
      and stamp = None and n = None]
    failed_sell_leaves_state_unchanged [where action = "''SELL''" and d = empty_db and a = 1
      and t = "''AAPL''" and shares = 1 and now = 0 and price = 600 and fee = 20 and tax = 0
      and stamp = None and n = None]
  by (simp add: lookup_defs example_db_def empty_db_def)

text \<open>
  C2. A \<open>BUY\<close> on a ticker with no holding creates the holding with the bought shares
  at the trade price; on an existing holding it adds the shares and sets the average cost
  to \<open>(old_shares * old_cost + shares * price) / (old_shares + shares)\<close>; hence after any
  non-empty sequence of buys of positive share counts, starting without a holding, the
  average cost is the share-weighted mean of the buy prices.
\<close>

theorem buy_weighted_average_cost:
  "(select_holding conn a (upper t) = None \<and> accounts conn a \<noteq> None \<longrightarrow>
      (\<exists>conn'. update_holding_from_trade conn a t ''BUY'' shares price = Inr conn' \<and>
         select_holding conn' a (upper t) =
           Some \<lparr>h_account_id = a, h_ticker = upper t, h_shares = shares, h_avg_cost = price\<rparr>)) \<and>
   (\<forall>ex. select_holding conn a (upper t) = Some ex \<and> h_shares ex + shares \<noteq> 0 \<longrightarrow>
      (\<exists>conn'. update_holding_from_trade conn a t ''BUY'' shares price = Inr conn' \<and>
         select_holding conn' a (upper t) =
           Some (ex\<lparr>h_shares := h_shares ex + shares,
                    h_avg_cost := (h_shares ex * h_avg_cost ex + shares * price)
                                    / (h_shares ex + shares)\<rparr>))) \<and>
   (select_holding conn a (upper t) = None \<and> accounts conn a \<noteq> None \<and> buys \<noteq> [] \<and>
    (\<forall>(s, p) \<in> set buys. 0 < s) \<longrightarrow>
      (\<exists>conn' h. apply_buys conn a t buys = Inr conn' \<and>
         select_holding conn' a (upper t) = Some h \<and>
         h_shares h = total_shares buys \<and>
         h_avg_cost h = total_paid buys / total_shares buys))"
  using buy_new [of conn a t shares price] buy_existing [of conn a t _ shares price]
    apply_buys_fresh [of conn a t buys]
  by blast

theorem buy_weighted_average_cost_witness:
  "(\<exists>conn'. update_holding_from_trade empty_db 1 ''aapl'' ''BUY'' 10 178.5 = Inr conn' \<and>
      select_holding conn' 1 ''AAPL'' =
        Some \<lparr>h_account_id = 1, h_ticker = ''AAPL'', h_shares = 10, h_avg_cost = 178.5\<rparr>) \<and>
   (\<exists>conn'. update_holding_from_trade example_db 1 ''2330.TW'' ''BUY'' 500 600 = Inr conn' \<and>
      select_holding conn' 1 ''2330.TW'' =
        Some \<lparr>h_account_id = 1, h_ticker = ''2330.TW'', h_shares = 1500, h_avg_cost = 587\<rparr>) \<and>
   (\<exists>conn' h. apply_buys empty_db 1 ''aapl'' [(10, 100), (30, 200), (10, 150)] = Inr conn' \<and>
      select_holding conn' 1 ''AAPL'' = Some h \<and> h_shares h = 50 \<and> h_avg_cost h = 170)"
  using buy_weighted_average_cost [where conn = empty_db and a = 1 and t = "''aapl''" and shares = 10
        and price = "178.5" and buys = "[(10, 100), (30, 200), (10, 150)]"]
      buy_weighted_average_cost [where conn = example_db and a = 1 and t = "''2330.TW''"
        and shares = 500 and price = 600 and buys = "[]"]
  by (simp add: lookup_defs empty_db_def example_db_def total_shares_def total_paid_def)


text \<open>
  C3. A committed trade changes the cash balance of the account's settlement currency by
  \<open>- (shares * price + fee + tax)\<close> for a \<open>BUY\<close> and by
  \<open>shares * price - fee - tax\<close> for a \<open>SELL\<close>: a missing position is created at
  that amount, an existing one has it added; no other cash position changes.
\<close>

theorem committed_trade_cash_delta:
  assumes "record_transaction d now a t action shares price fee tax stamp n = (d', Inr tx)"
  shows "\<exists>acct. accounts d a = Some acct \<and>
           (upper action = ''BUY'' \<or> upper action = ''SELL'') \<and>
           cash_positions d' (a, upper (a_currency acct)) =
             Some ((case cash_positions d (a, upper (a_currency acct)) of
                      None \<Rightarrow> 0
                    | Some balance \<Rightarrow> balance)
                   + (if upper action = ''BUY'' then - (shares * price + fee + tax)
                      else shares * price - fee - tax)) \<and>
           (\<forall>k. k \<noteq> (a, upper (a_currency acct)) \<longrightarrow> cash_positions d' k = cash_positions d k)"
proof -
  from assms obtain acct c1 c2 where
    act: "upper action \<in> TRANSACTION_ACTIONS" and acc: "accounts d a = Some acct"
    and u: "update_holding_from_trade d a (upper t) (upper action) shares price = Inr c1"
    and c: "adjust_cash c1 a (a_currency acct)
              (cash_change_of (upper action) shares price fee tax) = Inr c2"
    and i: "insert_transaction c2
              (new_transaction a (upper t) (upper action) shares price fee tax (a_currency acct) n
                 (case stamp of None \<Rightarrow> sql_now now | Some ts \<Rightarrow> ts)) = Inr (d', tx)"
    unfolding record_transaction_Inr_iff by blast
  have f1: "cash_positions c1 = cash_positions d" using trade_frame[OF u] by simp
  have f3: "cash_positions d' = cash_positions c2" using insert_transaction_Inr[OF i] by simp
  have "cash_positions d' = (cash_positions d)((a, upper (a_currency acct)) \<mapsto>
          (case cash_positions d (a, upper (a_currency acct)) of
             None \<Rightarrow> cash_change_of (upper action) shares price fee tax
           | Some b \<Rightarrow> b + cash_change_of (upper action) shares price fee tax))"
    using adjust_cash_Inr[OF c] f1 f3 by simp
  then show ?thesis
    using act acc
    by (auto simp: TRANSACTION_ACTIONS_def cash_change_of_def split: option.splits)
qed

theorem committed_trade_cash_delta_witness:
  "cash_positions
     (fst (record_transaction example_db 0 1 ''2330.tw'' ''buy'' 1000 580.5 20 0 None None))
     (1, ''TWD'') = Some (- 480520) \<and>
   cash_positions
     (fst (record_transaction example_db 0 1 ''2330.tw'' ''sell'' 400 600 20 30 None None))
     (1, ''TWD'') = Some 339950"
proof -
  obtain d1 tx1 where r1:
    "record_transaction example_db 0 1 ''2330.tw'' ''buy'' 1000 580.5 20 0 None None = (d1, Inr tx1)"
    by (simp add: run_defs example_db_def)
  obtain d2 tx2 where r2:
    "record_transaction example_db 0 1 ''2330.tw'' ''sell'' 400 600 20 30 None None = (d2, Inr tx2)"
    by (simp add: run_defs example_db_def)
  have "cash_positions d1 (1, ''TWD'') = Some (- 480520)"
    using committed_trade_cash_delta [OF r1] by (simp add: example_db_def upper_def upper_char_def)
  moreover have "cash_positions d2 (1, ''TWD'') = Some 339950"
    using committed_trade_cash_delta [OF r2] by (simp add: example_db_def upper_def upper_char_def)
  ultimately show ?thesis unfolding r1 r2 fst_conv by blast
qed

text \<open>
  C4. A \<open>SELL\<close> of at most the held shares succeeds: the share count drops by the sold
  amount, the average cost stays, and when the count reaches exactly zero the row is
  deleted.
\<close>

theorem sell_decrements_and_deletes_at_zero:
  assumes "select_holding conn a (upper t) = Some ex" and "shares \<le> h_shares ex"
  shows "\<exists>conn'. update_holding_from_trade conn a t ''SELL'' shares price = Inr conn' \<and>
           select_holding conn' a (upper t) =
             (if h_shares ex - shares = 0 then None
              else Some (ex\<lparr>h_shares := h_shares ex - shares\<rparr>)) \<and>
           (h_shares ex - shares = 0 \<longrightarrow>
              (\<forall>h \<in> set (holdings conn'). \<not> holding_at a (upper t) h))"
proof -
  from sell_existing[OF assms, of price] obtain conn' where
    r: "update_holding_from_trade conn a t ''SELL'' shares price = Inr conn'"
       "select_holding conn' a (upper t) =
             (if h_shares ex - shares = 0 then None
              else Some (ex\<lparr>h_shares := h_shares ex - shares\<rparr>))"
    by blast
  have "h_shares ex - shares = 0 \<longrightarrow> (\<forall>h \<in> set (holdings conn'). \<not> holding_at a (upper t) h)"
    using r(2) by (auto simp: select_holding_def find_None_iff)
  with r show ?thesis by blast
qed

theorem sell_decrements_and_deletes_at_zero_witness:
  "(\<exists>conn'. update_holding_from_trade example_db 1 ''2330.tw'' ''SELL'' 400 600 = Inr conn' \<and>
      select_holding conn' 1 ''2330.TW'' =
        Some \<lparr>h_account_id = 1, h_ticker = ''2330.TW'', h_shares = 600, h_avg_cost = 580.5\<rparr>) \<and>
   (\<exists>conn'. update_holding_from_trade example_db 1 ''2330.tw'' ''SELL'' 1000 600 = Inr conn' \<and>
      select_holding conn' 1 ''2330.TW'' = None \<and> holdings conn' = [])"
proof -
  have x: "select_holding example_db 1 (upper ''2330.tw'') =
             Some \<lparr>h_account_id = 1, h_ticker = ''2330.TW'', h_shares = 1000, h_avg_cost = 580.5\<rparr>"
    by (simp add: lookup_defs example_db_def)
  have u: "upper ''2330.tw'' = ''2330.TW''"
    by (simp add: upper_def upper_char_def)
  have "\<exists>conn'. update_holding_from_trade example_db 1 ''2330.tw'' ''SELL'' 400 600 = Inr conn' \<and>
      select_holding conn' 1 ''2330.TW'' =
        Some \<lparr>h_account_id = 1, h_ticker = ''2330.TW'', h_shares = 600, h_avg_cost = 580.5\<rparr>"
    using sell_decrements_and_deletes_at_zero [OF x, of 400 600] by (simp add: u)
  moreover have "\<exists>conn'. update_holding_from_trade example_db 1 ''2330.tw'' ''SELL'' 1000 600 = Inr conn' \<and>
      select_holding conn' 1 ''2330.TW'' = None \<and> holdings conn' = []"
    using sell_decrements_and_deletes_at_zero [OF x, of 1000 600]
    by (auto simp: u run_defs example_db_def)
  ultimately show ?thesis by blast
qed

lemma trade_holding_effect:
  assumes "update_holding_from_trade conn a t action shares price = Inr c1"
  shows "(action = ''BUY'' \<longrightarrow>
            select_holding c1 a (upper t) =
              (case select_holding conn a (upper t) of
                 None \<Rightarrow> Some \<lparr>h_account_id = a, h_ticker = upper t, h_shares = shares,
                                h_avg_cost = price\<rparr>
               | Some ex \<Rightarrow>
                   Some (ex\<lparr>h_shares := h_shares ex + shares,
                            h_avg_cost := (h_shares ex * h_avg_cost ex + shares * price)
                                            / (h_shares ex + shares)\<rparr>))) \<and>
         (action = ''SELL'' \<longrightarrow>
            (\<exists>ex. select_holding conn a (upper t) = Some ex \<and> shares \<le> h_shares ex \<and>
                  select_holding c1 a (upper t) =
                    (if h_shares ex - shares = 0 then None
                     else Some (ex\<lparr>h_shares := h_shares ex - shares\<rparr>))))"
proof (cases "select_holding conn a (upper t)")
  case None
  then show ?thesis
    using assms
    by (auto simp: update_holding_from_trade_def Let_def dest: select_insert_same
          split: if_splits)
next
  case (Some ex)
  then show ?thesis
    using assms
    by (auto simp: update_holding_from_trade_def Let_def select_update_same select_delete_same
          holding_at_def split: if_splits)
qed

lemma select_holding_cong:
  "holdings x = holdings y \<Longrightarrow> select_holding x a t = select_holding y a t"
  by (simp add: select_holding_def)

text \<open>
  C10. \<open>record_transaction\<close> checks only the action, the shares and the price: a call
  that commits with fee and tax zero commits with any fee and tax, negative ones included.
  The trade is committed in full: the holding is created, merged or reduced as for any
  trade, exactly one transaction row with a fresh id is appended and carries the fee and
  the tax as given, and the cash balance changes by \<open>- (shares * price + fee + tax)\<close> for
  a \<open>BUY\<close> and \<open>shares * price - fee - tax\<close> for a \<open>SELL\<close>, so a negative fee or tax
  raises the balance. No other table and no other cash position changes.
\<close>

theorem negative_fee_tax_accepted:
  assumes "record_transaction d now a t action shares price 0 0 stamp n = (d0, Inr tx0)"
  shows "\<exists>d' tx acct.
           record_transaction d now a t action shares price fee tax stamp n = (d', Inr tx) \<and>
           accounts d a = Some acct \<and>
           tx = \<lparr>t_id = next_transaction_id d, t_account_id = a, t_ticker = upper t,
                 t_action = upper action, t_shares = shares, t_price = price,
                 t_fee = fee, t_tax = tax, t_currency = a_currency acct, t_notes = n,
                 t_executed_at = (case stamp of None \<Rightarrow> sql_now now | Some ts \<Rightarrow> ts)\<rparr> \<and>
           t_id tx \<notin> t_id ` set (transactions d) \<and>
           transactions d' = transactions d @ [tx] \<and>
           (upper action = ''BUY'' \<longrightarrow>
              select_holding d' a (upper t) =
                (case select_holding d a (upper t) of
                   None \<Rightarrow> Some \<lparr>h_account_id = a, h_ticker = upper t, h_shares = shares,
                                  h_avg_cost = price\<rparr>
                 | Some ex \<Rightarrow>
                     Some (ex\<lparr>h_shares := h_shares ex + shares,
                              h_avg_cost := (h_shares ex * h_avg_cost ex + shares * price)
                                              / (h_shares ex + shares)\<rparr>))) \<and>
           (upper action = ''SELL'' \<longrightarrow>
              (\<exists>ex. select_holding d a (upper t) = Some ex \<and> shares \<le> h_shares ex \<and>
                    select_holding d' a (upper t) =
                      (if h_shares ex - shares = 0 then None
                       else Some (ex\<lparr>h_shares := h_shares ex - shares\<rparr>)))) \<and>
           holdings d' = holdings d0 \<and>
           cash_positions d' =
             (cash_positions d)((a, upper (a_currency acct)) \<mapsto>
                (case cash_positions d (a, upper (a_currency acct)) of
                   None \<Rightarrow> 0
                 | Some balance \<Rightarrow> balance)
                + (if upper action = ''BUY'' then - (shares * price + fee + tax)
                   else shares * price - fee - tax)) \<and>
           accounts d' = accounts d \<and> planned_orders d' = planned_orders d \<and>
           price_cache d' = price_cache d \<and> exchange_rates d' = exchange_rates d"
proof -
  from assms obtain acct c1 c2 where
    act: "upper action \<in> TRANSACTION_ACTIONS" and pos: "0 < shares" "0 < price"
    and acc: "accounts d a = Some acct"
    and u: "update_holding_from_trade d a (upper t) (upper action) shares price = Inr c1"
    and c: "adjust_cash c1 a (a_currency acct)
              (cash_change_of (upper action) shares price 0 0) = Inr c2"
    and i: "insert_transaction c2
              (new_transaction a (upper t) (upper action) shares price 0 0 (a_currency acct) n
                 (case stamp of None \<Rightarrow> sql_now now | Some ts \<Rightarrow> ts)) = Inr (d0, tx0)"
    unfolding record_transaction_Inr_iff by blast
  note f1 = trade_frame[OF u]
  let ?key = "(a, upper (a_currency acct))"
  let ?amt = "cash_change_of (upper action) shares price fee tax"
  obtain c2' where c': "adjust_cash c1 a (a_currency acct) ?amt = Inr c2'"
    using adjust_cash_ok[of c1 a] f1 acc by auto
  let ?row = "new_transaction a (upper t) (upper action) shares price fee tax (a_currency acct) n
                 (case stamp of None \<Rightarrow> sql_now now | Some ts \<Rightarrow> ts)"
  note e2 = adjust_cash_Inr[OF c']
  have a2: "accounts c2' = accounts c1" using e2 by simp
  obtain d' tx where i': "insert_transaction c2' ?row = Inr (d', tx)"
    using insert_transaction_ok[of c2' ?row] f1 a2 acc by (auto simp: new_transaction_def)
  note e3 = insert_transaction_Inr[OF i']
  have r: "record_transaction d now a t action shares price fee tax stamp n = (d', Inr tx)"
    unfolding record_transaction_Inr_iff using act pos acc u c' i' by blast
  have t2: "transactions c2' = transactions d" using e2 f1 by simp
  then have nid: "next_transaction_id c2' = next_transaction_id d"
    by (simp add: next_transaction_id_def)
  have tx: "tx = \<lparr>t_id = next_transaction_id d, t_account_id = a, t_ticker = upper t,
                 t_action = upper action, t_shares = shares, t_price = price,
                 t_fee = fee, t_tax = tax, t_currency = a_currency acct, t_notes = n,
                 t_executed_at = (case stamp of None \<Rightarrow> sql_now now | Some ts \<Rightarrow> ts)\<rparr>"
    using e3 nid by (simp add: new_transaction_def)
  have fresh: "t_id tx \<notin> t_id ` set (transactions d)"
    using next_transaction_id_fresh[of d] tx by simp
  have log: "transactions d' = transactions d @ [tx]" using e3 t2 by simp
  have h': "holdings d' = holdings c1" using e2 e3 by simp
  have h0: "holdings d0 = holdings c1"
    using adjust_cash_Inr[OF c] insert_transaction_Inr[OF i] by simp
  have sel: "select_holding d' a (upper t) = select_holding c1 a (upper t)"
    using h' by (rule select_holding_cong)
  note eff = trade_holding_effect[OF u, unfolded upper_idem, folded sel]
  have cash: "cash_positions d' =
             (cash_positions d)(?key \<mapsto>
                (case cash_positions d ?key of None \<Rightarrow> 0 | Some balance \<Rightarrow> balance)
                + (if upper action = ''BUY'' then - (shares * price + fee + tax)
                   else shares * price - fee - tax))"
    using e2 e3 f1 by (auto simp: cash_change_of_def Let_def split: option.splits)
  have rest: "accounts d' = accounts d" "planned_orders d' = planned_orders d"
    "price_cache d' = price_cache d" "exchange_rates d' = exchange_rates d"
    using e2 e3 f1 by simp_all
  show ?thesis
    using r acc tx fresh log eff h' h0 cash rest by (intro exI[of _ d'] exI[of _ tx] exI[of _ acct]) simp
qed


theorem negative_fee_tax_accepted_witness:
  "\<exists>d' tx. record_transaction empty_db 0 1 ''AAPL'' ''BUY'' 10 50 (- 100) (- 7) None None = (d', Inr tx) \<and>
     transactions d' = [tx] \<and> t_fee tx = - 100 \<and> t_tax tx = - 7 \<and> t_price tx = 50 \<and>
     select_holding d' 1 ''AAPL'' =
       Some \<lparr>h_account_id = 1, h_ticker = ''AAPL'', h_shares = 10, h_avg_cost = 50\<rparr> \<and>
     cash_positions d' (1, ''USD'') = Some (- 393)"
proof -
  obtain d0 tx0 where r0:
    "record_transaction empty_db 0 1 ''AAPL'' ''BUY'' 10 50 0 0 None None = (d0, Inr tx0)"
    by (simp add: run_defs empty_db_def)
  have s0: "select_holding empty_db 1 (upper ''AAPL'') = None" "upper ''AAPL'' = ''AAPL''"
    "upper ''BUY'' = ''BUY''" "transactions empty_db = []" "cash_positions empty_db (1, ''USD'') = None"
    "accounts empty_db 1 = Some \<lparr>a_market = ''US'', a_currency = ''USD''\<rparr>" "upper ''USD'' = ''USD''"
    by (simp_all add: lookup_defs empty_db_def)
  from negative_fee_tax_accepted [OF r0, of "- 100" "- 7"]
  obtain d' tx acct where
    r: "record_transaction empty_db 0 1 ''AAPL'' ''BUY'' 10 50 (- 100) (- 7) None None = (d', Inr tx)"
    and acc: "accounts empty_db 1 = Some acct"
    and tx: "t_fee tx = - 100" "t_tax tx = - 7" "t_price tx = 50"
    and log: "transactions d' = transactions empty_db @ [tx]"
    and hold: "upper ''BUY'' = ''BUY'' \<longrightarrow>
              select_holding d' 1 (upper ''AAPL'') =
                (case select_holding empty_db 1 (upper ''AAPL'') of
                   None \<Rightarrow> Some \<lparr>h_account_id = 1, h_ticker = upper ''AAPL'', h_shares = 10,
                                  h_avg_cost = 50\<rparr>
                 | Some ex \<Rightarrow>
                     Some (ex\<lparr>h_shares := h_shares ex + 10,
                              h_avg_cost := (h_shares ex * h_avg_cost ex + 10 * 50)
                                              / (h_shares ex + 10)\<rparr>))"
    and cash: "cash_positions d' =
             (cash_positions empty_db)((1, upper (a_currency acct)) \<mapsto>
                (case cash_positions empty_db (1, upper (a_currency acct)) of
                   None \<Rightarrow> 0
                 | Some balance \<Rightarrow> balance)
                + (if upper ''BUY'' = ''BUY'' then - (10 * 50 + - 100 + - 7)
                   else 10 * 50 - - 100 - - 7))"
    by force
  have a: "acct = \<lparr>a_market = ''US'', a_currency = ''USD''\<rparr>" using acc s0(6) by simp
  have "select_holding d' 1 ''AAPL'' =
       Some \<lparr>h_account_id = 1, h_ticker = ''AAPL'', h_shares = 10, h_avg_cost = 50\<rparr>"
    using hold by (simp add: lookup_defs empty_db_def)
  moreover have "cash_positions d' (1, ''USD'') = Some (- 393)"
    unfolding cash a by (simp add: lookup_defs empty_db_def)
  moreover have "transactions d' = [tx]" using log s0(4) by simp
  ultimately show ?thesis using r tx by blast
qed


section \<open>Planned orders\<close>

lemma record_transaction_effect:
  assumes "record_transaction d now a t action shares price fee tax stamp n = (d', Inr tx)"
  shows "planned_orders d' = planned_orders d \<and> transactions d' = transactions d @ [tx] \<and>
         t_id tx \<notin> t_id ` set (transactions d) \<and>
         t_account_id tx = a \<and> t_ticker tx = upper t \<and> t_action tx = upper action \<and>
         t_shares tx = shares \<and> t_price tx = price \<and> t_fee tx = fee \<and> t_tax tx = tax"
proof -
  from assms obtain acct :: account and c1 c2 where
    u: "update_holding_from_trade d a (upper t) (upper action) shares price = Inr c1"
    and c: "adjust_cash c1 a (a_currency acct)
              (cash_change_of (upper action) shares price fee tax) = Inr c2"
    and i: "insert_transaction c2
              (new_transaction a (upper t) (upper action) shares price fee tax (a_currency acct) n
                 (case stamp of None \<Rightarrow> sql_now now | Some ts \<Rightarrow> ts)) = Inr (d', tx)"
    unfolding record_transaction_Inr_iff by blast
  have f1: "planned_orders c1 = planned_orders d" "transactions c1 = transactions d"
    using trade_frame[OF u] by simp_all
  have f2: "planned_orders c2 = planned_orders c1" "transactions c2 = transactions c1"
    using adjust_cash_Inr[OF c] by simp_all
  have tx: "tx = (new_transaction a (upper t) (upper action) shares price fee tax (a_currency acct) n
                 (case stamp of None \<Rightarrow> sql_now now | Some ts \<Rightarrow> ts))\<lparr>t_id := next_transaction_id c2\<rparr>"
    and d': "d' = c2\<lparr>transactions := transactions c2 @ [tx]\<rparr>"
    using insert_transaction_Inr[OF i] by simp_all
  have "next_transaction_id c2 = next_transaction_id d"
    by (simp add: next_transaction_id_def f1 f2)
  then have "t_id tx \<notin> t_id ` set (transactions d)"
    using next_transaction_id_fresh[of d] tx by simp
  moreover have "planned_orders d' = planned_orders d" "transactions d' = transactions d @ [tx]"
    using d' f1 f2 by simp_all
  ultimately show ?thesis
    using tx by (simp add: new_transaction_def)
qed

lemma not_pending_rejected:
  assumes "planned_orders d order_id = Some order" "o_status order \<noteq> ''PENDING''"
  shows "execute_order d now order_id actual_price fee tax = (d, Inl InvalidState)"
    and "cancel_order d order_id = (d, Inl InvalidState)"
    and "\<exists>e. update_order d order_id u = (d, Inl e)"
    and "\<not> no_updates u \<Longrightarrow> update_order d order_id u = (d, Inl InvalidState)"
  using assms
  by (simp_all add: execute_order_def execute_order_check_def cancel_order_def update_order_def
        get_connection_def)

lemma finalize_unconditional:
  assumes "planned_orders d order_id = Some row" "tx_id \<in> set (map t_id (transactions d))"
  shows "execute_order_finalize d now order_id tx_id =
           (d\<lparr>planned_orders := (planned_orders d)(order_id \<mapsto> executed row now tx_id)\<rparr>,
            Inr (executed row now tx_id))"
  using assms by (simp add: execute_order_finalize_def get_connection_def executed_def)

lemma finalize_dangling_link:
  assumes "planned_orders d order_id = Some row" "tx_id \<notin> set (map t_id (transactions d))"
  shows "execute_order_finalize d now order_id tx_id = (d, Inl IntegrityError)"
  using assms by (simp add: execute_order_finalize_def get_connection_def)

lemma execute_pending:
  assumes o: "planned_orders d order_id = Some order" and p: "o_status order = ''PENDING''"
      and r: "record_transaction d now (o_account_id order) (o_ticker order) (o_action order)
                 (o_shares order) actual_price fee tax None
                 (Some (order_note order_id)) = (d1, Inr tx)"
  shows "execute_order d now order_id actual_price fee tax =
           (d1\<lparr>planned_orders := (planned_orders d)(order_id \<mapsto> executed order now (t_id tx))\<rparr>,
            Inr (executed order now (t_id tx)))"
proof -
  have po: "planned_orders d1 = planned_orders d"
    and lg: "t_id tx \<in> set (map t_id (transactions d1))"
    using record_transaction_effect[OF r] by simp_all
  have c: "execute_order_check d order_id = (d, Inr order)"
    using o p by (simp add: execute_order_check_def get_connection_def)
  have "execute_order_finalize d1 now order_id (t_id tx) =
          (d1\<lparr>planned_orders := (planned_orders d1)(order_id \<mapsto> executed order now (t_id tx))\<rparr>,
           Inr (executed order now (t_id tx)))"
    using o po lg by (intro finalize_unconditional) simp_all
  then show ?thesis
    by (simp add: execute_order_def c execute_order_rest_def r po)
qed


text \<open>
  C5. Executing a \<open>PENDING\<close> order whose trade the recorder accepts moves it to
  \<open>EXECUTED\<close>, stamps the execution time and appends exactly one transaction, with a
  fresh id that the order links to, at the actual price supplied. Afterwards, and for any
  order found \<open>EXECUTED\<close> or \<open>CANCELLED\<close>, execute, cancel and update fail and return the
  store unchanged; the failure is the invalid-state error (for update: whenever at least
  one valid field is supplied, the empty update being rejected before the order is read).
\<close>

theorem execute_once_then_terminal:
  "(planned_orders d order_id = Some order \<and> o_status order = ''PENDING'' \<and>
    record_transaction d now (o_account_id order) (o_ticker order) (o_action order)
      (o_shares order) actual_price fee tax None (Some (order_note order_id)) = (d_tx, Inr tx) \<longrightarrow>
      (\<exists>d'. execute_order d now order_id actual_price fee tax =
               (d', Inr (executed order now (t_id tx))) \<and>
             planned_orders d' = (planned_orders d)(order_id \<mapsto> executed order now (t_id tx)) \<and>
             transactions d' = transactions d @ [tx] \<and>
             t_id tx \<notin> t_id ` set (transactions d) \<and>
             t_price tx = actual_price \<and> t_shares tx = o_shares order \<and>
             t_account_id tx = o_account_id order \<and>
             execute_order d' now_b order_id price_b fee_b tax_b = (d', Inl InvalidState) \<and>
             cancel_order d' order_id = (d', Inl InvalidState) \<and>
             (\<exists>e. update_order d' order_id u = (d', Inl e)) \<and>
             (\<not> no_updates u \<longrightarrow> update_order d' order_id u = (d', Inl InvalidState)))) \<and>
   (planned_orders d order_id = Some order \<and> o_status order \<in> {''EXECUTED'', ''CANCELLED''} \<longrightarrow>
      execute_order d now order_id actual_price fee tax = (d, Inl InvalidState) \<and>
      cancel_order d order_id = (d, Inl InvalidState) \<and>
      (\<exists>e. update_order d order_id u = (d, Inl e)) \<and>
      (\<not> no_updates u \<longrightarrow> update_order d order_id u = (d, Inl InvalidState)))"
proof (intro conjI impI)
  assume a: "planned_orders d order_id = Some order \<and> o_status order = ''PENDING'' \<and>
    record_transaction d now (o_account_id order) (o_ticker order) (o_action order)
      (o_shares order) actual_price fee tax None (Some (order_note order_id)) = (d_tx, Inr tx)"
  let ?o' = "executed order now (t_id tx)"
  let ?d' = "d_tx\<lparr>planned_orders := (planned_orders d)(order_id \<mapsto> ?o')\<rparr>"
  from a have ex: "execute_order d now order_id actual_price fee tax = (?d', Inr ?o')"
    by (intro execute_pending) simp_all
  from a have eff: "transactions d_tx = transactions d @ [tx]"
    "t_id tx \<notin> t_id ` set (transactions d)" "t_price tx = actual_price"
    "t_shares tx = o_shares order" "t_account_id tx = o_account_id order"
    using record_transaction_effect[of d now "o_account_id order" "o_ticker order"
        "o_action order" "o_shares order" actual_price fee tax None
        "Some (order_note order_id)" d_tx tx]
    by simp_all
  have po: "planned_orders ?d' order_id = Some ?o'" by simp
  have st: "o_status ?o' \<noteq> ''PENDING''" by (simp add: executed_def)
  show "\<exists>d'. execute_order d now order_id actual_price fee tax =
               (d', Inr (executed order now (t_id tx))) \<and>
             planned_orders d' = (planned_orders d)(order_id \<mapsto> executed order now (t_id tx)) \<and>
             transactions d' = transactions d @ [tx] \<and>
             t_id tx \<notin> t_id ` set (transactions d) \<and>
             t_price tx = actual_price \<and> t_shares tx = o_shares order \<and>
             t_account_id tx = o_account_id order \<and>
             execute_order d' now_b order_id price_b fee_b tax_b = (d', Inl InvalidState) \<and>
             cancel_order d' order_id = (d', Inl InvalidState) \<and>
             (\<exists>e. update_order d' order_id u = (d', Inl e)) \<and>
             (\<not> no_updates u \<longrightarrow> update_order d' order_id u = (d', Inl InvalidState))"
    using ex eff not_pending_rejected[OF po st]
    by (intro exI[of _ ?d']) simp
next
  assume b: "planned_orders d order_id = Some order \<and>
             o_status order \<in> {''EXECUTED'', ''CANCELLED''}"
  then have o: "planned_orders d order_id = Some order" and st: "o_status order \<noteq> ''PENDING''"
    by auto
  show "execute_order d now order_id actual_price fee tax = (d, Inl InvalidState)"
    "cancel_order d order_id = (d, Inl InvalidState)"
    "\<exists>e. update_order d order_id u = (d, Inl e)"
    using not_pending_rejected[OF o st] by blast+
  assume "\<not> no_updates u"
  then show "update_order d order_id u = (d, Inl InvalidState)"
    using not_pending_rejected(4)[OF o st] by blast
qed


theorem execute_once_then_terminal_witness:
  "(\<exists>d'. execute_order order_db 1234567 7 560 20 0 =
           (d', Inr \<lparr>o_account_id = 1, o_ticker = ''2330.TW'', o_action = ''BUY'', o_shares = 100,
                     o_target_price = Some 550, o_reason = None, o_priority = ''NORMAL'',
                     o_status = ''EXECUTED'', o_executed_at = Some 1000000,
                     o_linked_transaction_id = Some 1\<rparr>) \<and>
         map t_price (transactions d') = [560] \<and>
         execute_order d' 2234567 7 570 0 0 = (d', Inl InvalidState) \<and>
         cancel_order d' 7 = (d', Inl InvalidState)) \<and>
   execute_order order_db 1234567 8 560 20 0 = (order_db, Inl InvalidState) \<and>
   cancel_order order_db 8 = (order_db, Inl InvalidState)"
proof -
  let ?o7 = "\<lparr>o_account_id = 1, o_ticker = ''2330.TW'', o_action = ''BUY'', o_shares = 100,
               o_target_price = Some 550, o_reason = None, o_priority = ''NORMAL'',
               o_status = ''PENDING'', o_executed_at = None,
               o_linked_transaction_id = None\<rparr>"
  let ?o8 = "\<lparr>o_account_id = 1, o_ticker = ''2330.TW'', o_action = ''SELL'', o_shares = 5,
               o_target_price = None, o_reason = None, o_priority = ''LOW'',
               o_status = ''CANCELLED'', o_executed_at = None,
               o_linked_transaction_id = None\<rparr>"
  have p7: "planned_orders order_db 7 = Some ?o7" and p8: "planned_orders order_db 8 = Some ?o8"
    by (simp_all add: order_db_def)
  obtain d1 tx where r:
    "record_transaction order_db 1234567 1 ''2330.TW'' ''BUY'' 100 560 20 0 None
       (Some (order_note 7)) = (d1, Inr tx)"
    by (simp add: run_defs order_db_def example_db_def)
  have tx: "t_id tx = 1" "transactions order_db = []"
    using r by (auto simp: run_defs order_db_def example_db_def)
  have first: "\<exists>d'. execute_order order_db 1234567 7 560 20 0 =
           (d', Inr (executed ?o7 1234567 (t_id tx))) \<and>
         transactions d' = transactions order_db @ [tx] \<and> t_price tx = 560 \<and>
         execute_order d' 2234567 7 570 0 0 = (d', Inl InvalidState) \<and>
         cancel_order d' 7 = (d', Inl InvalidState)"
    using execute_once_then_terminal [where d = order_db and order_id = 7 and order = ?o7
        and now = 1234567 and actual_price = 560 and fee = 20 and tax = 0 and d_tx = d1 and tx = tx
        and now_b = 2234567 and price_b = 570 and fee_b = 0 and tax_b = 0] p7 r
    by auto
  have second: "execute_order order_db 1234567 8 560 20 0 = (order_db, Inl InvalidState) \<and>
      cancel_order order_db 8 = (order_db, Inl InvalidState)"
    using execute_once_then_terminal [where d = order_db and order_id = 8 and order = ?o8
        and now = 1234567 and actual_price = 560 and fee = 20 and tax = 0] p8
    by simp
  show ?thesis
    using first second by (auto simp: tx executed_def sql_now_def)
qed

text \<open>
  C6, as stated: the terminal write is guarded by the status still being \<open>PENDING\<close>, so
  that of two overlapping executions at most one succeeds. It is not: when both status
  checks run before either trade is recorded, both calls succeed and two transactions are
  logged; and with a recorded trade to link, the write turns even a \<open>CANCELLED\<close> order
  into \<open>EXECUTED\<close>.
\<close>

theorem unguarded_terminal_write_counterexample:
  "\<not> isl (fst (snd (execute_order_interleaved order_db 1234567 7 560 20 0))) \<and>
   \<not> isl (snd (snd (execute_order_interleaved order_db 1234567 7 560 20 0))) \<and>
   map t_id (transactions (fst (execute_order_interleaved order_db 1234567 7 560 20 0))) = [1, 2] \<and>
   map_option o_status (planned_orders logged_db 8) = Some ''CANCELLED'' \<and>
   map t_id (transactions logged_db) = [1] \<and>
   map_option o_status (planned_orders (fst (execute_order_finalize logged_db 1234567 8 1)) 8)
     = Some ''EXECUTED''"
  by (simp add: execute_order_interleaved_def execute_order_check_def execute_order_rest_def
        execute_order_finalize_def run_defs logged_db_def order_db_def example_db_def)

text \<open>
  C6, amended. The terminal write of \<open>execute_order\<close> is an update by id alone, with no
  condition on the status: on any existing order, whatever its status at write time, it
  sets \<open>EXECUTED\<close>, the execution time and the link, provided the linked transaction is
  in the log; a link to a transaction that is not in the log violates the foreign key and
  the write is rolled back. The status is checked only in the first atomic scope, so an
  execution that starts on an order that is no longer \<open>PENDING\<close> is rejected with the
  store unchanged.
\<close>

theorem terminal_write_is_unconditional:
  "(planned_orders d order_id = Some row \<and> tx_id \<in> set (map t_id (transactions d)) \<longrightarrow>
      execute_order_finalize d now order_id tx_id =
        (d\<lparr>planned_orders := (planned_orders d)(order_id \<mapsto> executed row now tx_id)\<rparr>,
         Inr (executed row now tx_id))) \<and>
   (planned_orders d order_id = Some row \<and> tx_id \<notin> set (map t_id (transactions d)) \<longrightarrow>
      execute_order_finalize d now order_id tx_id = (d, Inl IntegrityError)) \<and>
   (planned_orders d order_id = Some row \<and> o_status row \<noteq> ''PENDING'' \<longrightarrow>
      execute_order d now order_id actual_price fee tax = (d, Inl InvalidState))"
  using finalize_unconditional[of d order_id row tx_id now]
    finalize_dangling_link[of d order_id row tx_id now]
    not_pending_rejected(1)[of d order_id row now actual_price fee tax]
  by blast

theorem terminal_write_is_unconditional_witness:
  "execute_order_finalize logged_db 1234567 8 1 =
     (logged_db\<lparr>planned_orders := (planned_orders logged_db)(8 \<mapsto>
        \<lparr>o_account_id = 1, o_ticker = ''2330.TW'', o_action = ''SELL'', o_shares = 5,
         o_target_price = None, o_reason = None, o_priority = ''LOW'',
         o_status = ''EXECUTED'', o_executed_at = Some 1000000,
         o_linked_transaction_id = Some 1\<rparr>)\<rparr>,
      Inr \<lparr>o_account_id = 1, o_ticker = ''2330.TW'', o_action = ''SELL'', o_shares = 5,
         o_target_price = None, o_reason = None, o_priority = ''LOW'',
         o_status = ''EXECUTED'', o_executed_at = Some 1000000,
         o_linked_transaction_id = Some 1\<rparr>) \<and>
   execute_order_finalize logged_db 1234567 8 99 = (logged_db, Inl IntegrityError) \<and>
   execute_order logged_db 1234567 8 560 20 0 = (logged_db, Inl InvalidState)"
proof -
  let ?o8 = "\<lparr>o_account_id = 1, o_ticker = ''2330.TW'', o_action = ''SELL'', o_shares = 5,
               o_target_price = None, o_reason = None, o_priority = ''LOW'',
               o_status = ''CANCELLED'', o_executed_at = None,
               o_linked_transaction_id = None\<rparr>"
  have p8: "planned_orders logged_db 8 = Some ?o8"
    by (simp add: logged_db_def order_db_def)
  have lg: "(1::nat) \<in> set (map t_id (transactions logged_db))"
    "(99::nat) \<notin> set (map t_id (transactions logged_db))"
    by (simp_all add: logged_db_def)
  have a: "execute_order_finalize logged_db 1234567 8 1 =
     (logged_db\<lparr>planned_orders := (planned_orders logged_db)(8 \<mapsto>
        executed ?o8 1234567 1)\<rparr>, Inr (executed ?o8 1234567 1)) \<and>
     execute_order logged_db 1234567 8 560 20 0 = (logged_db, Inl InvalidState)"
    using terminal_write_is_unconditional [where d = logged_db and order_id = 8 and row = ?o8
        and now = 1234567 and tx_id = 1 and actual_price = 560 and fee = 20 and tax = 0] p8 lg
    by simp
  have b: "execute_order_finalize logged_db 1234567 8 99 = (logged_db, Inl IntegrityError)"
    using terminal_write_is_unconditional [where d = logged_db and order_id = 8 and row = ?o8
        and now = 1234567 and tx_id = 99 and actual_price = 560 and fee = 20 and tax = 0] p8 lg
    by simp
  show ?thesis
    using a b by (simp add: executed_def sql_now_def)
qed


section \<open>Market data cache\<close>

lemma price_served:
  assumes "price_cache d (upper t) = Some row"
      and "now - p_fetched_at row \<le> minutes PRICE_CACHE_TTL_MINUTES"
  shows "fetch_price d now yf t =
           (d, Inr \<lparr>res_ticker = upper t, res_price = p_price row,
                    res_currency = p_currency row, res_cached = True\<rparr>)"
  using assms by (simp add: fetch_price_def get_cached_price_def)

lemma price_refetched:
  assumes "case price_cache d (upper t) of
             None \<Rightarrow> True
           | Some row \<Rightarrow> now - p_fetched_at row > minutes PRICE_CACHE_TTL_MINUTES"
      and "py_or (lastPrice (yf (upper t))) (previousClose (yf (upper t))) = Some v"
  shows "fetch_price d now yf t =
           (d\<lparr>price_cache := (price_cache d)(upper t \<mapsto>
                 \<lparr>p_price = v,
                  p_currency = (case info_currency (yf (upper t)) of None \<Rightarrow> ''USD'' | Some c \<Rightarrow> c),
                  p_fetched_at = sql_now now\<rparr>)\<rparr>,
            Inr \<lparr>res_ticker = upper t, res_price = v,
                 res_currency = (case info_currency (yf (upper t)) of None \<Rightarrow> ''USD'' | Some c \<Rightarrow> c),
                 res_cached = False\<rparr>)"
  using assms
  by (auto simp: fetch_price_def get_cached_price_def update_price_cache_def Let_def
        split: option.splits)

lemma rate_served:
  assumes "upper f \<noteq> upper t" "exchange_rates d (upper f, upper t) = Some row"
      and "now - r_fetched_at row \<le> minutes FX_CACHE_TTL_MINUTES"
  shows "fetch_rate d now yf f t = (d, Inr (r_rate row))"
  using assms by (simp add: fetch_rate_def get_cached_rate_def)

lemma rate_refetched:
  assumes "upper f \<noteq> upper t"
      and "case exchange_rates d (upper f, upper t) of
             None \<Rightarrow> True
           | Some row \<Rightarrow> now - r_fetched_at row > minutes FX_CACHE_TTL_MINUTES"
      and "py_or (lastPrice (yf (fx_ticker (upper f) (upper t))))
                 (previousClose (yf (fx_ticker (upper f) (upper t)))) = Some v"
  shows "fetch_rate d now yf f t =
           (d\<lparr>exchange_rates := (exchange_rates d)((upper f, upper t) \<mapsto>
                 \<lparr>r_rate = v, r_fetched_at = sql_now now\<rparr>)\<rparr>,
            Inr v)"
  using assms
  by (auto simp: fetch_rate_def get_cached_rate_def update_rate_cache_def Let_def
        split: option.splits)

lemma sql_now_bounds: "sql_now T \<le> T \<and> T < sql_now T + 1000000"
  unfolding sql_now_def by presburger


lemma price_after_fetch:
  assumes miss: "case price_cache d (upper t) of
             None \<Rightarrow> True
           | Some row \<Rightarrow> T - p_fetched_at row > minutes PRICE_CACHE_TTL_MINUTES"
      and src: "py_or (lastPrice (yf (upper t))) (previousClose (yf (upper t))) = Some v"
      and run: "fetch_price d T yf t = (d1, r)"
  shows "fetch_price d1 (T + minutes PRICE_CACHE_TTL_MINUTES - 1000000) yf' t =
           (d1, Inr \<lparr>res_ticker = upper t, res_price = v,
                     res_currency = (case info_currency (yf (upper t)) of None \<Rightarrow> ''USD'' | Some c \<Rightarrow> c),
                     res_cached = True\<rparr>)"
    and "py_or (lastPrice (yf' (upper t))) (previousClose (yf' (upper t))) = Some v' \<Longrightarrow>
         fetch_price d1 (T + minutes PRICE_CACHE_TTL_MINUTES + 1000000) yf' t =
           (d1\<lparr>price_cache := (price_cache d1)(upper t \<mapsto>
                 \<lparr>p_price = v',
                  p_currency = (case info_currency (yf' (upper t)) of None \<Rightarrow> ''USD'' | Some c \<Rightarrow> c),
                  p_fetched_at = sql_now (T + minutes PRICE_CACHE_TTL_MINUTES + 1000000)\<rparr>)\<rparr>,
            Inr \<lparr>res_ticker = upper t, res_price = v',
                 res_currency = (case info_currency (yf' (upper t)) of None \<Rightarrow> ''USD'' | Some c \<Rightarrow> c),
                 res_cached = False\<rparr>)"
proof -
  let ?row = "\<lparr>p_price = v,
               p_currency = (case info_currency (yf (upper t)) of None \<Rightarrow> ''USD'' | Some c \<Rightarrow> c),
               p_fetched_at = sql_now T\<rparr>"
  have d1: "d1 = d\<lparr>price_cache := (price_cache d)(upper t \<mapsto> ?row)\<rparr>"
    using price_refetched[where d = d and t = t and now = T and yf = yf and v = v, OF miss src] run by simp
  then have c: "price_cache d1 (upper t) = Some ?row" by simp
  have b: "sql_now T \<le> T" "T < sql_now T + 1000000"
    using sql_now_bounds[of T] by simp_all
  have "(T + minutes PRICE_CACHE_TTL_MINUTES - 1000000) - p_fetched_at ?row
          \<le> minutes PRICE_CACHE_TTL_MINUTES"
    using b by simp
  from price_served[OF c this]
  show "fetch_price d1 (T + minutes PRICE_CACHE_TTL_MINUTES - 1000000) yf' t =
           (d1, Inr \<lparr>res_ticker = upper t, res_price = v,
                     res_currency = (case info_currency (yf (upper t)) of None \<Rightarrow> ''USD'' | Some c \<Rightarrow> c),
                     res_cached = True\<rparr>)"
    by simp
  assume src': "py_or (lastPrice (yf' (upper t))) (previousClose (yf' (upper t))) = Some v'"
  have "case price_cache d1 (upper t) of None \<Rightarrow> True
        | Some row \<Rightarrow> (T + minutes PRICE_CACHE_TTL_MINUTES + 1000000) - p_fetched_at row
                         > minutes PRICE_CACHE_TTL_MINUTES"
    using b c by simp
  from price_refetched[where d = d1 and t = t and yf = yf' and v = v', OF this src']
  show "fetch_price d1 (T + minutes PRICE_CACHE_TTL_MINUTES + 1000000) yf' t =
           (d1\<lparr>price_cache := (price_cache d1)(upper t \<mapsto>
                 \<lparr>p_price = v',
                  p_currency = (case info_currency (yf' (upper t)) of None \<Rightarrow> ''USD'' | Some c \<Rightarrow> c),
                  p_fetched_at = sql_now (T + minutes PRICE_CACHE_TTL_MINUTES + 1000000)\<rparr>)\<rparr>,
            Inr \<lparr>res_ticker = upper t, res_price = v',
                 res_currency = (case info_currency (yf' (upper t)) of None \<Rightarrow> ''USD'' | Some c \<Rightarrow> c),
                 res_cached = False\<rparr>)" .
qed

lemma rate_after_fetch:
  assumes ne: "upper f \<noteq> upper t"
      and miss: "case exchange_rates d (upper f, upper t) of
             None \<Rightarrow> True
           | Some row \<Rightarrow> T - r_fetched_at row > minutes FX_CACHE_TTL_MINUTES"
      and src: "py_or (lastPrice (yf (fx_ticker (upper f) (upper t))))
                 (previousClose (yf (fx_ticker (upper f) (upper t)))) = Some v"
      and run: "fetch_rate d T yf f t = (d1, r)"
  shows "fetch_rate d1 (T + minutes FX_CACHE_TTL_MINUTES - 1000000) yf' f t = (d1, Inr v)"
    and "py_or (lastPrice (yf' (fx_ticker (upper f) (upper t))))
               (previousClose (yf' (fx_ticker (upper f) (upper t)))) = Some v' \<Longrightarrow>
         fetch_rate d1 (T + minutes FX_CACHE_TTL_MINUTES + 1000000) yf' f t =
           (d1\<lparr>exchange_rates := (exchange_rates d1)((upper f, upper t) \<mapsto>
                 \<lparr>r_rate = v',
                  r_fetched_at = sql_now (T + minutes FX_CACHE_TTL_MINUTES + 1000000)\<rparr>)\<rparr>,
            Inr v')"
proof -
  let ?row = "\<lparr>r_rate = v, r_fetched_at = sql_now T\<rparr>"
  have d1: "d1 = d\<lparr>exchange_rates := (exchange_rates d)((upper f, upper t) \<mapsto> ?row)\<rparr>"
    using rate_refetched[where d = d and f = f and t = t and now = T and yf = yf and v = v, OF ne miss src] run by simp
  then have c: "exchange_rates d1 (upper f, upper t) = Some ?row" by simp
  have b: "sql_now T \<le> T" "T < sql_now T + 1000000"
    using sql_now_bounds[of T] by simp_all
  have "(T + minutes FX_CACHE_TTL_MINUTES - 1000000) - r_fetched_at ?row
          \<le> minutes FX_CACHE_TTL_MINUTES"
    using b by simp
  from rate_served[OF ne c this]
  show "fetch_rate d1 (T + minutes FX_CACHE_TTL_MINUTES - 1000000) yf' f t = (d1, Inr v)"
    by simp
  assume src': "py_or (lastPrice (yf' (fx_ticker (upper f) (upper t))))
               (previousClose (yf' (fx_ticker (upper f) (upper t)))) = Some v'"
  have "case exchange_rates d1 (upper f, upper t) of None \<Rightarrow> True
        | Some row \<Rightarrow> (T + minutes FX_CACHE_TTL_MINUTES + 1000000) - r_fetched_at row
                         > minutes FX_CACHE_TTL_MINUTES"
    using b c by simp
  from rate_refetched[where d = d1 and f = f and t = t and yf = yf' and v = v', OF ne this src']
  show "fetch_rate d1 (T + minutes FX_CACHE_TTL_MINUTES + 1000000) yf' f t =
           (d1\<lparr>exchange_rates := (exchange_rates d1)((upper f, upper t) \<mapsto>
                 \<lparr>r_rate = v',
                  r_fetched_at = sql_now (T + minutes FX_CACHE_TTL_MINUTES + 1000000)\<rparr>)\<rparr>,
            Inr v')" .
qed

text \<open>
  C8. A price (by ticker) or an exchange rate (by currency pair) whose cached row is at
  most the time-to-live old (15 minutes for prices, 60 for rates) is returned from the
  cache: the store is unchanged and the answer does not depend on the data source; the
  price answer is tagged as cached. Without a row, or with an older one, the value the
  source supplies is stored in the one row of that key with the new fetch time and
  returned, the price answer tagged as not cached. Hence a value fetched at \<open>T\<close> is
  served from the cache one second before \<open>T + TTL\<close> and fetched again one second after.
\<close>

theorem cache_lookup_respects_ttl:
  "minutes PRICE_CACHE_TTL_MINUTES = 15 * 60 * 1000000 \<and>
   minutes FX_CACHE_TTL_MINUTES = 60 * 60 * 1000000 \<and>
   (price_cache d (upper t) = Some prow \<and>
    now - p_fetched_at prow \<le> minutes PRICE_CACHE_TTL_MINUTES \<longrightarrow>
      fetch_price d now yf t =
        (d, Inr \<lparr>res_ticker = upper t, res_price = p_price prow,
                 res_currency = p_currency prow, res_cached = True\<rparr>)) \<and>
   ((case price_cache d (upper t) of None \<Rightarrow> True | Some row \<Rightarrow> now - p_fetched_at row > minutes PRICE_CACHE_TTL_MINUTES) \<and>
    py_or (lastPrice (yf (upper t))) (previousClose (yf (upper t))) = Some v \<longrightarrow>
      fetch_price d now yf t =
        (d\<lparr>price_cache := (price_cache d)(upper t \<mapsto>
              \<lparr>p_price = v, p_currency = (case info_currency (yf (upper t)) of None \<Rightarrow> ''USD'' | Some c \<Rightarrow> c),
               p_fetched_at = sql_now now\<rparr>)\<rparr>,
         Inr \<lparr>res_ticker = upper t, res_price = v,
              res_currency = (case info_currency (yf (upper t)) of None \<Rightarrow> ''USD'' | Some c \<Rightarrow> c),
              res_cached = False\<rparr>)) \<and>
   (upper cf \<noteq> upper ct \<and> exchange_rates d (upper cf, upper ct) = Some rrow \<and>
    now - r_fetched_at rrow \<le> minutes FX_CACHE_TTL_MINUTES \<longrightarrow>
      fetch_rate d now yf cf ct = (d, Inr (r_rate rrow))) \<and>
   (upper cf \<noteq> upper ct \<and>
    (case exchange_rates d (upper cf, upper ct) of None \<Rightarrow> True | Some row \<Rightarrow> now - r_fetched_at row > minutes FX_CACHE_TTL_MINUTES) \<and>
    py_or (lastPrice (yf (fx_ticker (upper cf) (upper ct)))) (previousClose (yf (fx_ticker (upper cf) (upper ct)))) = Some v \<longrightarrow>
      fetch_rate d now yf cf ct =
        (d\<lparr>exchange_rates := (exchange_rates d)((upper cf, upper ct) \<mapsto>
              \<lparr>r_rate = v, r_fetched_at = sql_now now\<rparr>)\<rparr>,
         Inr v)) \<and>
   ((case price_cache d (upper t) of None \<Rightarrow> True | Some row \<Rightarrow> now - p_fetched_at row > minutes PRICE_CACHE_TTL_MINUTES) \<and>
    py_or (lastPrice (yf (upper t))) (previousClose (yf (upper t))) = Some v \<and>
    fetch_price d now yf t = (dp, rp) \<longrightarrow>
      fetch_price dp (now + minutes PRICE_CACHE_TTL_MINUTES - 1000000) yf' t =
        (dp, Inr \<lparr>res_ticker = upper t, res_price = v,
                  res_currency = (case info_currency (yf (upper t)) of None \<Rightarrow> ''USD'' | Some c \<Rightarrow> c),
                  res_cached = True\<rparr>) \<and>
      (py_or (lastPrice (yf' (upper t))) (previousClose (yf' (upper t))) = Some v' \<longrightarrow>
         fetch_price dp (now + minutes PRICE_CACHE_TTL_MINUTES + 1000000) yf' t =
           (dp\<lparr>price_cache := (price_cache dp)(upper t \<mapsto>
                 \<lparr>p_price = v', p_currency = (case info_currency (yf' (upper t)) of None \<Rightarrow> ''USD'' | Some c \<Rightarrow> c),
                  p_fetched_at = sql_now (now + minutes PRICE_CACHE_TTL_MINUTES + 1000000)\<rparr>)\<rparr>,
            Inr \<lparr>res_ticker = upper t, res_price = v',
                 res_currency = (case info_currency (yf' (upper t)) of None \<Rightarrow> ''USD'' | Some c \<Rightarrow> c),
                 res_cached = False\<rparr>))) \<and>
   (upper cf \<noteq> upper ct \<and>
    (case exchange_rates d (upper cf, upper ct) of None \<Rightarrow> True | Some row \<Rightarrow> now - r_fetched_at row > minutes FX_CACHE_TTL_MINUTES) \<and>
    py_or (lastPrice (yf (fx_ticker (upper cf) (upper ct)))) (previousClose (yf (fx_ticker (upper cf) (upper ct)))) = Some v \<and>
    fetch_rate d now yf cf ct = (dr, rr) \<longrightarrow>
      fetch_rate dr (now + minutes FX_CACHE_TTL_MINUTES - 1000000) yf' cf ct = (dr, Inr v) \<and>
      (py_or (lastPrice (yf' (fx_ticker (upper cf) (upper ct)))) (previousClose (yf' (fx_ticker (upper cf) (upper ct)))) = Some v' \<longrightarrow>
         fetch_rate dr (now + minutes FX_CACHE_TTL_MINUTES + 1000000) yf' cf ct =
           (dr\<lparr>exchange_rates := (exchange_rates dr)((upper cf, upper ct) \<mapsto>
                 \<lparr>r_rate = v',
                  r_fetched_at = sql_now (now + minutes FX_CACHE_TTL_MINUTES + 1000000)\<rparr>)\<rparr>,
            Inr v')))"
proof -
  have ttl: "minutes PRICE_CACHE_TTL_MINUTES = 15 * 60 * 1000000"
    "minutes FX_CACHE_TTL_MINUTES = 60 * 60 * 1000000"
    by (simp_all add: minutes_def PRICE_CACHE_TTL_MINUTES_def FX_CACHE_TTL_MINUTES_def)
  note a = price_served [where d = d and t = t and row = prow and now = now and yf = yf]
  note b = price_refetched [where d = d and t = t and now = now and yf = yf and v = v]
  note c = rate_served [where d = d and f = cf and t = ct and row = rrow and now = now and yf = yf]
  note e = rate_refetched [where d = d and f = cf and t = ct and now = now and yf = yf and v = v]
  note f = price_after_fetch(1) [where d = d and t = t and T = now and yf = yf and v = v
      and ?d1.0 = dp and r = rp and yf' = yf']
  note f' = price_after_fetch(2) [where d = d and t = t and T = now and yf = yf and v = v
      and ?d1.0 = dp and r = rp and yf' = yf' and v' = v']
  note g = rate_after_fetch(1) [where d = d and f = cf and t = ct and T = now and yf = yf and v = v
      and ?d1.0 = dr and r = rr and yf' = yf']
  note g' = rate_after_fetch(2) [where d = d and f = cf and t = ct and T = now and yf = yf and v = v
      and ?d1.0 = dr and r = rr and yf' = yf' and v' = v']
  show ?thesis
    using ttl a b c e f f' g g' by blast
qed


lemmas cache_defs = cache_db_def empty_db_def quote_source_def py_or_def minutes_def
  PRICE_CACHE_TTL_MINUTES_def FX_CACHE_TTL_MINUTES_def sql_now_def upper_def upper_char_def
  fx_ticker_def

theorem cache_lookup_respects_ttl_witness:
  "fetch_price cache_db 904999999 quote_source ''aapl'' =
     (cache_db, Inr \<lparr>res_ticker = ''AAPL'', res_price = 170, res_currency = ''USD'',
                      res_cached = True\<rparr>) \<and>
   snd (fetch_price cache_db 905000001 quote_source ''aapl'') =
     Inr \<lparr>res_ticker = ''AAPL'', res_price = 180, res_currency = ''USD'', res_cached = False\<rparr> \<and>
   price_cache (fst (fetch_price cache_db 905000001 quote_source ''aapl'')) ''AAPL'' =
     Some \<lparr>p_price = 180, p_currency = ''USD'', p_fetched_at = 905000000\<rparr> \<and>
   fetch_rate cache_db 3605000000 quote_source ''usd'' ''twd'' = (cache_db, Inr 31) \<and>
   snd (fetch_rate cache_db 3605000001 quote_source ''usd'' ''twd'') = Inr 31.5 \<and>
   snd (fetch_price (fst (fetch_price empty_db 1234567 quote_source ''AAPL''))
          900234567 (\<lambda>_. \<lparr>lastPrice = None, previousClose = None, info_currency = None\<rparr>)
          ''AAPL'') =
     Inr \<lparr>res_ticker = ''AAPL'', res_price = 180, res_currency = ''USD'', res_cached = True\<rparr> \<and>
   snd (fetch_price (fst (fetch_price empty_db 1234567 quote_source ''AAPL''))
          902234567 quote_source ''AAPL'') =
     Inr \<lparr>res_ticker = ''AAPL'', res_price = 180, res_currency = ''USD'', res_cached = False\<rparr>"
proof -
  note i1 = cache_lookup_respects_ttl [where d = cache_db and t = "''aapl''" and now = 904999999
      and yf = quote_source
      and prow = "\<lparr>p_price = 170, p_currency = ''USD'', p_fetched_at = 5000000\<rparr>",
      THEN conjunct2, THEN conjunct2, THEN conjunct1]
  note i2 = cache_lookup_respects_ttl [where d = cache_db and t = "''aapl''" and now = 905000001
      and yf = quote_source and v = 180,
      THEN conjunct2, THEN conjunct2, THEN conjunct2, THEN conjunct1]
  note i3 = cache_lookup_respects_ttl [where d = cache_db and cf = "''usd''" and ct = "''twd''"
      and now = 3605000000 and yf = quote_source
      and rrow = "\<lparr>r_rate = 31, r_fetched_at = 5000000\<rparr>",
      THEN conjunct2, THEN conjunct2, THEN conjunct2, THEN conjunct2, THEN conjunct1]
  note i4 = cache_lookup_respects_ttl [where d = cache_db and cf = "''usd''" and ct = "''twd''"
      and now = 3605000001 and yf = quote_source and v = "31.5",
      THEN conjunct2, THEN conjunct2, THEN conjunct2, THEN conjunct2, THEN conjunct2,
      THEN conjunct1]
  note i5 = cache_lookup_respects_ttl [where d = empty_db and t = "''AAPL''" and now = 1234567
      and yf = quote_source and v = 180
      and dp = "fst (fetch_price empty_db 1234567 quote_source ''AAPL'')"
      and rp = "snd (fetch_price empty_db 1234567 quote_source ''AAPL'')"
      and yf' = "\<lambda>_. \<lparr>lastPrice = None, previousClose = None, info_currency = None\<rparr>",
      THEN conjunct2, THEN conjunct2, THEN conjunct2, THEN conjunct2, THEN conjunct2,
      THEN conjunct2, THEN conjunct1]
  note i6 = cache_lookup_respects_ttl [where d = empty_db and t = "''AAPL''" and now = 1234567
      and yf = quote_source and v = 180
      and dp = "fst (fetch_price empty_db 1234567 quote_source ''AAPL'')"
      and rp = "snd (fetch_price empty_db 1234567 quote_source ''AAPL'')"
      and yf' = quote_source and v' = 180,
      THEN conjunct2, THEN conjunct2, THEN conjunct2, THEN conjunct2, THEN conjunct2,
      THEN conjunct2, THEN conjunct1]
  have c1: "fetch_price cache_db 904999999 quote_source ''aapl'' =
     (cache_db, Inr \<lparr>res_ticker = ''AAPL'', res_price = 170, res_currency = ''USD'',
                      res_cached = True\<rparr>)"
    using i1 by (simp add: cache_defs)
  have c2: "snd (fetch_price cache_db 905000001 quote_source ''aapl'') =
     Inr \<lparr>res_ticker = ''AAPL'', res_price = 180, res_currency = ''USD'', res_cached = False\<rparr> \<and>
   price_cache (fst (fetch_price cache_db 905000001 quote_source ''aapl'')) ''AAPL'' =
     Some \<lparr>p_price = 180, p_currency = ''USD'', p_fetched_at = 905000000\<rparr>"
    using i2 by (simp add: cache_defs)
  have c3: "fetch_rate cache_db 3605000000 quote_source ''usd'' ''twd'' = (cache_db, Inr 31)"
    using i3 by (simp add: cache_defs)
  have c4: "snd (fetch_rate cache_db 3605000001 quote_source ''usd'' ''twd'') = Inr 31.5"
    using i4 by (simp add: cache_defs)
  have c5: "snd (fetch_price (fst (fetch_price empty_db 1234567 quote_source ''AAPL''))
          900234567 (\<lambda>_. \<lparr>lastPrice = None, previousClose = None, info_currency = None\<rparr>)
          ''AAPL'') =
     Inr \<lparr>res_ticker = ''AAPL'', res_price = 180, res_currency = ''USD'', res_cached = True\<rparr>"
    using i5 by (simp add: cache_defs)
  have c6: "snd (fetch_price (fst (fetch_price empty_db 1234567 quote_source ''AAPL''))
          902234567 quote_source ''AAPL'') =
     Inr \<lparr>res_ticker = ''AAPL'', res_price = 180, res_currency = ''USD'', res_cached = False\<rparr>"
    using i6 by (simp add: cache_defs)
  show ?thesis
    using c1 c2 c3 c4 c5 c6 by blast
qed


section \<open>Share counts of stored holdings\<close>

lemma find_Some_mem: "find P xs = Some x \<Longrightarrow> x \<in> set xs \<and> P x"
  by (induction xs) (auto split: if_splits)

lemma select_holding_mem:
  "select_holding conn a t = Some h \<Longrightarrow> h \<in> set (holdings conn) \<and> holding_at a t h"
  unfolding select_holding_def by (rule find_Some_mem)

lemma positive_update:
  assumes "positive_holdings conn" "\<And>h. 0 < h_shares (f h)"
  shows "positive_holdings (update_holding conn a t f)"
  using assms by (auto simp: positive_holdings_def update_holding_def)

lemma positive_delete: "positive_holdings conn \<Longrightarrow> positive_holdings (delete_holding conn a t)"
  by (auto simp: positive_holdings_def delete_holding_def)

lemma positive_insert:
  "positive_holdings conn \<Longrightarrow> 0 < s \<Longrightarrow> insert_holding conn a t s c = Inr conn' \<Longrightarrow>
   positive_holdings conn'"
  by (auto simp: positive_holdings_def insert_holding_def split: if_splits)

lemma positive_trade:
  assumes p: "positive_holdings conn" and s: "0 < shares"
      and r: "update_holding_from_trade conn a t action shares price = Inr conn'"
  shows "positive_holdings conn'"
proof (cases "select_holding conn a (upper t)")
  case None
  then show ?thesis
    using p s r positive_insert[of conn shares a "upper t" price conn']
    by (auto simp: update_holding_from_trade_def Let_def split: if_splits)
next
  case (Some ex)
  then have pos: "0 < h_shares ex"
    using p select_holding_mem[of conn a "upper t" ex] by (simp add: positive_holdings_def)
  show ?thesis
    using Some pos p s r
    by (auto simp: update_holding_from_trade_def Let_def split: if_splits
          intro!: positive_update positive_delete)
qed

lemma positive_record_transaction:
  assumes p: "positive_holdings d"
      and r: "record_transaction d now a t action shares price fee tax stamp n = (d', res)"
  shows "positive_holdings d'"
proof (cases res)
  case (Inl e)
  then show ?thesis using p r record_transaction_fails_unchanged[of d now a t action shares price fee tax stamp n d' e] by simp
next
  case (Inr tx)
  with r have "record_transaction d now a t action shares price fee tax stamp n = (d', Inr tx)"
    by simp
  then obtain acct :: account and c1 c2 where
    s: "0 < shares"
    and u: "update_holding_from_trade d a (upper t) (upper action) shares price = Inr c1"
    and c: "adjust_cash c1 a (a_currency acct)
              (cash_change_of (upper action) shares price fee tax) = Inr c2"
    and i: "insert_transaction c2
              (new_transaction a (upper t) (upper action) shares price fee tax (a_currency acct) n
                 (case stamp of None \<Rightarrow> sql_now now | Some ts \<Rightarrow> ts)) = Inr (d', tx)"
    unfolding record_transaction_Inr_iff by blast
  have "holdings d' = holdings c1"
    using adjust_cash_Inr[OF c] insert_transaction_Inr[OF i] by simp
  then show ?thesis
    using positive_trade[OF p s u] by (simp add: positive_holdings_def)
qed

lemma positive_sync_items:
  "positive_holdings conn \<Longrightarrow> sync_items em a items conn bt ad up = Inr (conn', r) \<Longrightarrow>
   positive_holdings conn'"
proof (induction items arbitrary: conn bt ad up)
  case Nil
  then show ?case by simp
next
  case (Cons item items)
  show ?case
  proof (cases "i_shares item \<le> 0")
    case True
    then show ?thesis using Cons by (simp add: Let_def)
  next
    case False
    then have s: "0 < i_shares item" by simp
    show ?thesis
    proof (cases "em (upper (i_ticker item))")
      case None
      then obtain c1 where i: "insert_holding conn a (upper (i_ticker item)) (i_shares item)
                                 (i_avg_cost item) = Inr c1"
        and rest: "sync_items em a items c1 (insert (upper (i_ticker item)) bt) (ad + 1) up
                     = Inr (conn', r)"
        using Cons.prems(2) False by (auto simp: Let_def split: sum.splits)
      from positive_insert[OF Cons.prems(1) s i] Cons.IH rest show ?thesis by blast
    next
      case (Some old)
      let ?c1 = "update_holding conn a (upper (i_ticker item))
                   (\<lambda>h. h\<lparr>h_shares := i_shares item, h_avg_cost := i_avg_cost item\<rparr>)"
      have p1: "positive_holdings ?c1"
        using Cons.prems(1) s by (intro positive_update) simp_all
      show ?thesis
        using Cons.prems(2) False Some Cons.IH[OF p1] Cons.IH[OF Cons.prems(1)]
        by (auto simp: Let_def split: if_splits)
    qed
  qed
qed

lemma positive_remove_missing:
  "positive_holdings d \<Longrightarrow> remove_missing d a ks bt n = (d', n') \<Longrightarrow> positive_holdings d'"
proof (induction ks arbitrary: d n)
  case Nil
  then show ?case by simp
next
  case (Cons k ks)
  then show ?case
    by (auto simp: remove_holding_def split: if_splits dest: positive_delete)
qed

lemma positive_sync:
  assumes p: "positive_holdings d" and r: "sync_broker_holdings d a items = (d', res)"
  shows "positive_holdings d'"
proof (cases "get_account d a")
  case (Inl e)
  then show ?thesis using p r by (simp add: sync_broker_holdings_def)
next
  case (Inr acct)
  let ?em = "dict_by_ticker (list_holdings d a)"
  show ?thesis
  proof (cases "sync_items ?em a items d {} 0 0")
    case (Inl e)
    then show ?thesis
      using p r Inr by (simp add: sync_broker_holdings_def get_connection_def)
  next
    case loop: (Inr x)
    obtain d1 bt ad up where x: "x = (d1, bt, ad, up)" by (cases x) auto
    obtain d2 n where rm: "remove_missing d1 a (dict_keys (list_holdings d a)) bt 0 = (d2, n)"
      by (cases "remove_missing d1 a (dict_keys (list_holdings d a)) bt 0") auto
    have "d' = d2"
      using r Inr loop x rm by (simp add: sync_broker_holdings_def get_connection_def)
    moreover have "positive_holdings d1"
      using positive_sync_items[OF p] loop x by simp
    ultimately show ?thesis
      using positive_remove_missing[OF _ rm] by simp
  qed
qed

lemma positive_add_holding:
  assumes p: "positive_holdings d" and s: "0 < shares"
      and r: "add_holding d a t shares avg = (d', res)"
  shows "positive_holdings d'"
proof (cases "select_holding d a (upper t)")
  case None
  then show ?thesis
    using p s r positive_insert[of d shares a "upper t" avg]
    by (auto simp: add_holding_def get_connection_def Let_def split: sum.splits option.splits)
next
  case (Some ex)
  then have pos: "0 < h_shares ex"
    using p select_holding_mem[of d a "upper t" ex] by (simp add: positive_holdings_def)
  let ?c = "update_holding d a (upper t)
              (\<lambda>h. h\<lparr>h_shares := h_shares ex + shares,
                     h_avg_cost := (if h_shares ex + shares > 0
                        then ((h_shares ex * h_avg_cost ex) + (shares * avg)) / (h_shares ex + shares)
                        else 0)\<rparr>)"
  have pc: "positive_holdings ?c"
    using p pos s by (intro positive_update) simp_all
  have "d' = ?c \<or> d' = d"
    using r Some by (auto simp: add_holding_def get_connection_def Let_def split: option.splits)
  then show ?thesis using pc p by auto
qed

lemma add_holding_keeps_nonpositive:
  assumes "select_holding d a (upper t) = Some ex" "h_shares ex + shares \<le> 0"
  shows "add_holding d a t shares avg =
           (update_holding d a (upper t) (\<lambda>h. h\<lparr>h_shares := h_shares ex + shares, h_avg_cost := 0\<rparr>),
            Inr (ex\<lparr>h_shares := h_shares ex + shares, h_avg_cost := 0\<rparr>))"
  using assms
  by (simp add: add_holding_def get_connection_def Let_def select_update_same holding_at_def)


text \<open>
  C7, as stated: every holding operation, the manual add/merge included, keeps share
  counts non-negative and deletes a row that reaches zero. \<open>add_holding\<close> does neither:
  merging \<open>-1000\<close> into a holding of 1000 keeps the row with zero shares, merging
  \<open>-1500\<close> leaves \<open>-500\<close>, and a first add of zero shares inserts a zero row.
\<close>

theorem manual_add_keeps_zero_rows_counterexample:
  "map h_shares (holdings example_db) = [1000] \<and>
   map h_shares (holdings (fst (add_holding example_db 1 ''2330.tw'' (- 1000) 600))) = [0] \<and>
   map h_shares (holdings (fst (add_holding example_db 1 ''2330.tw'' (- 1500) 600))) = [- 500] \<and>
   map h_shares (holdings (fst (add_holding empty_db 1 ''aapl'' 0 100))) = [0]"
  by (simp add: add_holding_def get_connection_def run_defs example_db_def empty_db_def)

text \<open>
  C7, amended. Recording a trade and reconciling a snapshot preserve the invariant that
  every stored holding has a strictly positive share count (so a sell to exactly zero
  deletes the row), whatever their outcome. \<open>add_holding\<close> preserves it for a positive
  number of shares; it checks nothing and never deletes: a merge whose total is zero or
  negative keeps the row, with that total and an average cost of zero.
\<close>

theorem holding_invariant_preserved:
  assumes "positive_holdings d"
  shows "(record_transaction d now a t action shares price fee tax stamp n = (dt, rt) \<longrightarrow>
            positive_holdings dt) \<and>
         (sync_broker_holdings d a items = (ds, rs) \<longrightarrow> positive_holdings ds) \<and>
         (0 < shares \<and> add_holding d a t shares avg_cost = (da, ra) \<longrightarrow> positive_holdings da) \<and>
         (\<forall>row. select_holding d a (upper t) = Some row \<and> h_shares row + shares \<le> 0 \<longrightarrow>
            add_holding d a t shares avg_cost =
              (update_holding d a (upper t)
                 (\<lambda>h. h\<lparr>h_shares := h_shares row + shares, h_avg_cost := 0\<rparr>),
               Inr (row\<lparr>h_shares := h_shares row + shares, h_avg_cost := 0\<rparr>)))"
  using assms positive_record_transaction[of d now a t action shares price fee tax stamp n dt rt]
    positive_sync[of d a items ds rs] positive_add_holding[of d shares a t avg_cost da ra]
    add_holding_keeps_nonpositive[of d a t _ shares avg_cost]
  by blast

theorem holding_invariant_preserved_witness:
  "positive_holdings (fst (record_transaction example_db 0 1 ''2330.TW'' ''SELL'' 1000 600 0 0 None None)) \<and>
   positive_holdings (fst (sync_broker_holdings example_db 1 aapl_snapshot)) \<and>
   positive_holdings (fst (add_holding example_db 1 ''2330.TW'' 5 600)) \<and>
   snd (add_holding example_db 1 ''2330.TW'' (- 1000) 600) =
     Inr \<lparr>h_account_id = 1, h_ticker = ''2330.TW'', h_shares = 0, h_avg_cost = 0\<rparr>"
proof -
  have p: "positive_holdings example_db"
    by (simp add: positive_holdings_def example_db_def)
  have x: "select_holding example_db 1 (upper ''2330.TW'') =
             Some \<lparr>h_account_id = 1, h_ticker = ''2330.TW'', h_shares = 1000, h_avg_cost = 580.5\<rparr>"
    by (simp add: lookup_defs example_db_def)
  note w = holding_invariant_preserved [OF p, where now = 0 and a = 1 and t = "''2330.TW''"
      and action = "''SELL''" and price = 600 and fee = 0 and tax = 0 and stamp = None and n = None
      and items = aapl_snapshot and avg_cost = 600]
  have "positive_holdings (fst (record_transaction example_db 0 1 ''2330.TW'' ''SELL'' 1000 600 0 0 None None))"
    using w [where shares = 1000
        and dt = "fst (record_transaction example_db 0 1 ''2330.TW'' ''SELL'' 1000 600 0 0 None None)"
        and rt = "snd (record_transaction example_db 0 1 ''2330.TW'' ''SELL'' 1000 600 0 0 None None)"]
    by simp
  moreover have "positive_holdings (fst (sync_broker_holdings example_db 1 aapl_snapshot))"
    using w [where ds = "fst (sync_broker_holdings example_db 1 aapl_snapshot)"
        and rs = "snd (sync_broker_holdings example_db 1 aapl_snapshot)"]
    by simp
  moreover have "positive_holdings (fst (add_holding example_db 1 ''2330.TW'' 5 600))"
    using w [where shares = 5
        and da = "fst (add_holding example_db 1 ''2330.TW'' 5 600)"
        and ra = "snd (add_holding example_db 1 ''2330.TW'' 5 600)"]
    by simp
  moreover have "snd (add_holding example_db 1 ''2330.TW'' (- 1000) 600) =
     Inr \<lparr>h_account_id = 1, h_ticker = ''2330.TW'', h_shares = 0, h_avg_cost = 0\<rparr>"
    using w [where shares = "- 1000"] x by simp
  ultimately show ?thesis by blast
qed


section \<open>Reconciliation\<close>

lemma holding_at_key: "holding_at a t h \<longleftrightarrow> holding_key h = (a, t)"
  by (auto simp: holding_at_def holding_key_def)

lemma find_distinct_key:
  "distinct (map k xs) \<Longrightarrow> x \<in> set xs \<Longrightarrow> find (\<lambda>y. k y = k x) xs = Some x"
  by (induction xs) (auto simp: image_iff)

lemma select_holding_unique:
  assumes "wf_holdings conn" "h \<in> set (holdings conn)" "holding_at a t h"
  shows "select_holding conn a t = Some h"
proof -
  have "find (\<lambda>y. holding_key y = holding_key h) (holdings conn) = Some h"
    using assms(1,2) by (intro find_distinct_key) (simp_all add: wf_holdings_def)
  moreover have "holding_key h = (a, t)" using assms(3) by (simp add: holding_at_key)
  ultimately show ?thesis
    by (simp add: select_holding_def holding_at_key[abs_def])
qed

lemma select_update_other:
  assumes "\<And>h. holding_key (f h) = holding_key h" "(a', t') \<noteq> (a, t)"
  shows "select_holding (update_holding conn a t f) a' t' = select_holding conn a' t'"
proof -
  have "find (holding_at a' t') (map (\<lambda>h. if holding_at a t h then f h else h) hs)
          = find (holding_at a' t') hs" for hs
    using assms by (induction hs) (auto simp: holding_at_key)
  then show ?thesis by (simp add: select_holding_def update_holding_def)
qed

lemma select_insert_other:
  assumes "insert_holding conn a t s c = Inr conn'" "(a', t') \<noteq> (a, t)"
  shows "select_holding conn' a' t' = select_holding conn a' t'"
  using assms
  by (auto simp: insert_holding_def select_holding_def find_append_eq holding_at_def
        split: if_splits option.splits)

lemma wf_update:
  assumes "wf_holdings conn" "\<And>h. holding_key (f h) = holding_key h"
  shows "wf_holdings (update_holding conn a t f)"
proof -
  have k: "map holding_key (map (\<lambda>h. if holding_at a t h then f h else h) hs) = map holding_key hs"
    for hs by (induction hs) (simp_all add: assms(2))
  have u: "h_ticker (f h) = h_ticker h" for h
    using assms(2)[of h] by (simp add: holding_key_def)
  show ?thesis
    using assms(1) unfolding wf_holdings_def update_holding_def
    by (auto simp: k u simp del: map_map)
qed

lemma wf_insert:
  assumes "wf_holdings conn" "insert_holding conn a t s c = Inr conn'" "upper t = t"
  shows "wf_holdings conn'"
proof -
  from assms(2) have n: "select_holding conn a t = None"
    and c: "conn' = conn\<lparr>holdings := holdings conn @
             [\<lparr>h_account_id = a, h_ticker = t, h_shares = s, h_avg_cost = c\<rparr>]\<rparr>"
    by (auto simp: insert_holding_def split: if_splits)
  from n have "(a, t) \<notin> set (map holding_key (holdings conn))"
    by (auto simp: select_holding_def find_None_iff holding_at_key)
  then show ?thesis
    using assms(1,3) c by (auto simp: wf_holdings_def holding_key_def)
qed

lemma wf_filter:
  assumes "wf_holdings conn"
  shows "wf_holdings (conn\<lparr>holdings := filter P (holdings conn)\<rparr>)"
  using assms by (auto simp: wf_holdings_def distinct_map_filter)

lemma dict_SomeD: "dict_by_ticker hs t = Some h \<Longrightarrow> h \<in> set hs \<and> h_ticker h = t"
  by (auto simp: dict_by_ticker_def dest!: map_of_SomeD)

lemma dict_NoneD: "dict_by_ticker hs t = None \<Longrightarrow> t \<notin> h_ticker ` set hs"
  by (force simp: dict_by_ticker_def map_of_eq_None_iff)

lemma set_dict_keys: "set (dict_keys hs) = h_ticker ` set hs"
  by (simp add: dict_keys_def)

lemma sync_items_noop:
  assumes "\<forall>i \<in> set items. 0 < i_shares i \<longrightarrow>
             (\<exists>old. em (upper (i_ticker i)) = Some old \<and> h_shares old = i_shares i \<and>
                    \<bar>h_avg_cost old - i_avg_cost i\<bar> \<le> 1 / 100)"
  shows "sync_items em a items conn bt ad up =
           Inr (conn, bt \<union> (\<lambda>i. upper (i_ticker i)) ` set items, ad, up)"
  using assms
proof (induction items arbitrary: bt)
  case Nil
  then show ?case by simp
next
  case (Cons item items)
  have rest: "sync_items em a items conn (insert (upper (i_ticker item)) bt) ad up =
           Inr (conn, insert (upper (i_ticker item)) bt \<union> (\<lambda>i. upper (i_ticker i)) ` set items,
                ad, up)"
    using Cons.prems by (intro Cons.IH) simp
  show ?case
  proof (cases "i_shares item \<le> 0")
    case True
    then show ?thesis using rest by (simp add: Let_def)
  next
    case False
    then obtain old where "em (upper (i_ticker item)) = Some old" "h_shares old = i_shares item"
      "\<bar>h_avg_cost old - i_avg_cost item\<bar> \<le> 1 / 100"
      using Cons.prems by auto
    then show ?thesis using False rest by (simp add: Let_def)
  qed
qed

lemma sync_items_tickers:
  "sync_items em a items conn bt ad up = Inr (conn', bt', ad', up') \<Longrightarrow>
   bt' = bt \<union> (\<lambda>i. upper (i_ticker i)) ` set items"
proof (induction items arbitrary: conn bt ad up)
  case Nil
  then show ?case by simp
next
  case (Cons item items)
  from Cons.prems obtain c1 a1 u1 where
    "sync_items em a items c1 (insert (upper (i_ticker item)) bt) a1 u1 = Inr (conn', bt', ad', up')"
    by (auto simp: Let_def split: if_splits option.splits sum.splits)
  from Cons.IH[OF this] show ?case by auto
qed

text \<open>One step of the loop on a snapshot entry with a positive share count.\<close>

lemma sync_step:
  assumes s: "0 < i_shares item"
      and run: "sync_items em a (item # items) conn bt ad up = Inr (conn', bt', ad', up')"
      and wf: "wf_holdings conn"
      and em: "\<forall>old. em (upper (i_ticker item)) = Some old \<longrightarrow>
                 select_holding conn a (upper (i_ticker item)) = Some old"
  shows "\<exists>c1 a1 u1.
           sync_items em a items c1 (insert (upper (i_ticker item)) bt) a1 u1
             = Inr (conn', bt', ad', up') \<and>
           wf_holdings c1 \<and> accounts c1 = accounts conn \<and>
           (\<exists>h. select_holding c1 a (upper (i_ticker item)) = Some h \<and>
                h_shares h = i_shares item \<and> \<bar>h_avg_cost h - i_avg_cost item\<bar> \<le> 1 / 100) \<and>
           (\<forall>t. t \<noteq> upper (i_ticker item) \<longrightarrow> select_holding c1 a t = select_holding conn a t) \<and>
           (\<forall>h \<in> set (holdings c1). h \<in> set (holdings conn) \<or>
               (h_account_id h = a \<and> h_ticker h = upper (i_ticker item)))"
proof (cases "em (upper (i_ticker item))")
  case None
  let ?t = "upper (i_ticker item)"
  from run s None obtain c1 where
    i: "insert_holding conn a ?t (i_shares item) (i_avg_cost item) = Inr c1"
    and rest: "sync_items em a items c1 (insert ?t bt) (ad + 1) up = Inr (conn', bt', ad', up')"
    by (auto simp: Let_def split: sum.splits)
  have "wf_holdings c1" using wf i by (rule wf_insert) (simp add: upper_idem)
  moreover have "accounts c1 = accounts conn"
    using i by (auto simp: insert_holding_def split: if_splits)
  moreover have "\<exists>h. select_holding c1 a ?t = Some h \<and>
                h_shares h = i_shares item \<and> \<bar>h_avg_cost h - i_avg_cost item\<bar> \<le> 1 / 100"
    using select_insert_same[OF i] by simp
  moreover have "\<forall>t. t \<noteq> ?t \<longrightarrow> select_holding c1 a t = select_holding conn a t"
    using select_insert_other[OF i] by simp
  moreover have "\<forall>h \<in> set (holdings c1). h \<in> set (holdings conn) \<or>
               (h_account_id h = a \<and> h_ticker h = ?t)"
    using i by (auto simp: insert_holding_def split: if_splits)
  ultimately show ?thesis using rest by blast
next
  case (Some old)
  let ?t = "upper (i_ticker item)"
  let ?f = "\<lambda>h. h\<lparr>h_shares := i_shares item, h_avg_cost := i_avg_cost item\<rparr>"
  from em Some have sel: "select_holding conn a ?t = Some old" by simp
  show ?thesis
  proof (cases "h_shares old \<noteq> i_shares item \<or> \<bar>h_avg_cost old - i_avg_cost item\<bar> > 1 / 100")
    case True
    let ?c1 = "update_holding conn a ?t ?f"
    have rest: "sync_items em a items ?c1 (insert ?t bt) ad (up + 1) = Inr (conn', bt', ad', up')"
      using run s Some True by (simp add: Let_def)
    have "wf_holdings ?c1" using wf by (rule wf_update) (simp add: holding_key_def)
    moreover have "accounts ?c1 = accounts conn" by (simp add: update_holding_def)
    moreover have "\<exists>h. select_holding ?c1 a ?t = Some h \<and>
                h_shares h = i_shares item \<and> \<bar>h_avg_cost h - i_avg_cost item\<bar> \<le> 1 / 100"
      using sel by (simp add: select_update_same holding_at_def)
    moreover have "\<forall>t. t \<noteq> ?t \<longrightarrow> select_holding ?c1 a t = select_holding conn a t"
      by (simp add: select_update_other holding_key_def)
    moreover have "\<forall>h \<in> set (holdings ?c1). h \<in> set (holdings conn) \<or>
               (h_account_id h = a \<and> h_ticker h = ?t)"
      by (auto simp: update_holding_def holding_at_def)
    ultimately show ?thesis using rest by blast
  next
    case False
    have rest: "sync_items em a items conn (insert ?t bt) ad up = Inr (conn', bt', ad', up')"
      using run s Some False by (simp add: Let_def)
    moreover have "\<exists>h. select_holding conn a ?t = Some h \<and>
                h_shares h = i_shares item \<and> \<bar>h_avg_cost h - i_avg_cost item\<bar> \<le> 1 / 100"
      using sel False by auto
    ultimately show ?thesis using wf by blast
  qed
qed

lemma sync_items_first:
  assumes "sync_items em a items conn bt ad up = Inr (conn', bt', ad', up')"
      and "wf_holdings conn"
      and "distinct (snapshot_tickers items)"
      and "\<forall>t old. t \<in> set (snapshot_tickers items) \<longrightarrow> em t = Some old \<longrightarrow>
             select_holding conn a t = Some old"
  shows "wf_holdings conn' \<and> accounts conn' = accounts conn \<and>
         (\<forall>i \<in> set items. 0 < i_shares i \<longrightarrow>
            (\<exists>h. select_holding conn' a (upper (i_ticker i)) = Some h \<and>
                 h_shares h = i_shares i \<and> \<bar>h_avg_cost h - i_avg_cost i\<bar> \<le> 1 / 100)) \<and>
         (\<forall>t. t \<notin> set (snapshot_tickers items) \<longrightarrow>
            select_holding conn' a t = select_holding conn a t) \<and>
         (\<forall>h \<in> set (holdings conn'). h \<in> set (holdings conn) \<or>
            (h_account_id h = a \<and> h_ticker h \<in> set (snapshot_tickers items)))"
  using assms
proof (induction items arbitrary: conn bt ad up)
  case Nil
  then show ?case by (simp add: snapshot_tickers_def)
next
  case (Cons item items)
  let ?t = "upper (i_ticker item)"
  show ?case
  proof (cases "i_shares item \<le> 0")
    case True
    then have st: "snapshot_tickers (item # items) = snapshot_tickers items"
      by (simp add: snapshot_tickers_def)
    have rest: "sync_items em a items conn (insert ?t bt) ad up = Inr (conn', bt', ad', up')"
      using Cons.prems(1) True by (simp add: Let_def)
    from Cons.IH[OF rest Cons.prems(2)] Cons.prems(3,4) True
    show ?thesis unfolding st by auto
  next
    case False
    then have s: "0 < i_shares item" by simp
    then have st: "snapshot_tickers (item # items) = ?t # snapshot_tickers items"
      by (simp add: snapshot_tickers_def)
    have fresh: "?t \<notin> set (snapshot_tickers items)" and d': "distinct (snapshot_tickers items)"
      using Cons.prems(3) unfolding st by simp_all
    have em_t: "\<forall>old. em ?t = Some old \<longrightarrow> select_holding conn a ?t = Some old"
      using Cons.prems(4) unfolding st by simp
    from sync_step[OF s Cons.prems(1,2) em_t] obtain c1 a1 u1 where
      rest: "sync_items em a items c1 (insert ?t bt) a1 u1 = Inr (conn', bt', ad', up')"
      and wf1: "wf_holdings c1" and acc1: "accounts c1 = accounts conn"
      and head: "\<exists>h. select_holding c1 a ?t = Some h \<and>
                h_shares h = i_shares item \<and> \<bar>h_avg_cost h - i_avg_cost item\<bar> \<le> 1 / 100"
      and frame1: "\<forall>t. t \<noteq> ?t \<longrightarrow> select_holding c1 a t = select_holding conn a t"
      and rows1: "\<forall>h \<in> set (holdings c1). h \<in> set (holdings conn) \<or>
               (h_account_id h = a \<and> h_ticker h = ?t)"
      by blast
    have em1: "\<forall>t old. t \<in> set (snapshot_tickers items) \<longrightarrow> em t = Some old \<longrightarrow>
             select_holding c1 a t = Some old"
    proof (intro allI impI)
      fix t old
      assume t: "t \<in> set (snapshot_tickers items)" and e: "em t = Some old"
      then have "t \<noteq> ?t" using fresh by auto
      then have "select_holding c1 a t = select_holding conn a t" using frame1 by simp
      also have "\<dots> = Some old" using Cons.prems(4) t e unfolding st by simp
      finally show "select_holding c1 a t = Some old" .
    qed
    from Cons.IH[OF rest wf1 d' em1]
    have wf': "wf_holdings conn'" and acc': "accounts conn' = accounts c1"
      and items': "\<forall>i \<in> set items. 0 < i_shares i \<longrightarrow>
            (\<exists>h. select_holding conn' a (upper (i_ticker i)) = Some h \<and>
                 h_shares h = i_shares i \<and> \<bar>h_avg_cost h - i_avg_cost i\<bar> \<le> 1 / 100)"
      and frame': "\<forall>t. t \<notin> set (snapshot_tickers items) \<longrightarrow>
            select_holding conn' a t = select_holding c1 a t"
      and rows': "\<forall>h \<in> set (holdings conn'). h \<in> set (holdings c1) \<or>
            (h_account_id h = a \<and> h_ticker h \<in> set (snapshot_tickers items))"
      by blast+
    have head': "\<exists>h. select_holding conn' a ?t = Some h \<and>
                h_shares h = i_shares item \<and> \<bar>h_avg_cost h - i_avg_cost item\<bar> \<le> 1 / 100"
      using head frame' fresh by simp
    have c3: "\<forall>i \<in> set (item # items). 0 < i_shares i \<longrightarrow>
            (\<exists>h. select_holding conn' a (upper (i_ticker i)) = Some h \<and>
                 h_shares h = i_shares i \<and> \<bar>h_avg_cost h - i_avg_cost i\<bar> \<le> 1 / 100)"
      using head' items' by simp
    have c4: "\<forall>t. t \<notin> set (snapshot_tickers (item # items)) \<longrightarrow>
            select_holding conn' a t = select_holding conn a t"
      using frame' frame1 unfolding st by simp
    have c5: "\<forall>h \<in> set (holdings conn'). h \<in> set (holdings conn) \<or>
            (h_account_id h = a \<and> h_ticker h \<in> set (snapshot_tickers (item # items)))"
      using rows' rows1 unfolding st by auto
    show ?thesis using wf' acc' acc1 c3 c4 c5 by simp
  qed
qed

lemma remove_missing_noop:
  "\<forall>k \<in> set ks. k \<in> bt \<Longrightarrow> remove_missing d a ks bt n = (d, n)"
  by (induction ks) simp_all

lemma wf_remove_missing:
  "wf_holdings d \<Longrightarrow> remove_missing d a ks bt n = (d', n') \<Longrightarrow> wf_holdings d'"
proof (induction ks arbitrary: d n)
  case Nil
  then show ?case by simp
next
  case (Cons k ks)
  have "wf_holdings (remove_holding d a k)"
    using wf_filter[OF Cons.prems(1)] by (simp add: remove_holding_def delete_holding_def)
  with Cons show ?case by (auto split: if_splits)
qed

lemma remove_missing_holdings:
  "remove_missing d a ks bt n = (d', n') \<Longrightarrow>
     accounts d' = accounts d \<and>
     set (holdings d') \<subseteq> set (holdings d) \<and>
     (\<forall>h \<in> set (holdings d).
        h \<in> set (holdings d') \<longleftrightarrow>
          \<not> (h_account_id h = a \<and> (\<exists>k \<in> set ks. k \<notin> bt \<and> h_ticker h = upper k)))"
proof (induction ks arbitrary: d n)
  case Nil
  then show ?case by simp
next
  case (Cons k ks)
  show ?case
  proof (cases "k \<in> bt")
    case True
    then have "remove_missing d a ks bt n = (d', n')" using Cons.prems by simp
    from Cons.IH[OF this] True show ?thesis by auto
  next
    case False
    let ?d1 = "remove_holding d a k"
    have run: "remove_missing ?d1 a ks bt (n + 1) = (d', n')"
      using Cons.prems False by simp
    from Cons.IH[OF run] have
      acc: "accounts d' = accounts ?d1" and sub: "set (holdings d') \<subseteq> set (holdings ?d1)"
      and mem: "\<forall>h \<in> set (holdings ?d1).
        h \<in> set (holdings d') \<longleftrightarrow>
          \<not> (h_account_id h = a \<and> (\<exists>k \<in> set ks. k \<notin> bt \<and> h_ticker h = upper k))"
      by blast+
    have h1: "holdings ?d1 = filter (\<lambda>h. \<not> holding_at a (upper k) h) (holdings d)"
      by (simp add: remove_holding_def delete_holding_def)
    have "set (holdings d') \<subseteq> set (holdings d)"
      using sub h1 by auto
    moreover have "accounts d' = accounts d"
      using acc by (simp add: remove_holding_def delete_holding_def)
    moreover have "\<forall>h \<in> set (holdings d).
        h \<in> set (holdings d') \<longleftrightarrow>
          \<not> (h_account_id h = a \<and> (\<exists>k' \<in> set (k # ks). k' \<notin> bt \<and> h_ticker h = upper k'))"
    proof
      fix h assume hd: "h \<in> set (holdings d)"
      show "h \<in> set (holdings d') \<longleftrightarrow>
          \<not> (h_account_id h = a \<and> (\<exists>k' \<in> set (k # ks). k' \<notin> bt \<and> h_ticker h = upper k'))"
      proof (cases "holding_at a (upper k) h")
        case True
        then have "h \<notin> set (holdings d')" using sub h1 by auto
        then show ?thesis using True False by (auto simp: holding_at_def)
      next
        case nk: False
        then have "h \<in> set (holdings ?d1)" using hd h1 by simp
        with mem have "h \<in> set (holdings d') \<longleftrightarrow>
          \<not> (h_account_id h = a \<and> (\<exists>k \<in> set ks. k \<notin> bt \<and> h_ticker h = upper k))"
          by blast
        then show ?thesis using nk by (auto simp: holding_at_def)
      qed
    qed
    ultimately show ?thesis by blast
  qed
qed

lemma sync_success_parts:
  assumes "sync_broker_holdings d a items = (d', Inr c)"
  shows "\<exists>acct d1 bt ad up n.
           accounts d a = Some acct \<and>
           sync_items (dict_by_ticker (list_holdings d a)) a items d {} 0 0 = Inr (d1, bt, ad, up) \<and>
           remove_missing d1 a (dict_keys (list_holdings d a)) bt 0 = (d', n) \<and>
           c = \<lparr>added = ad, updated = up, removed = n\<rparr>"
  using assms
  by (auto simp: sync_broker_holdings_def get_account_def get_connection_def Let_def
        split: option.splits sum.splits prod.splits)

lemma sync_twice:
  assumes wf: "wf_holdings d"
      and dist: "distinct (snapshot_tickers items)"
      and first: "sync_broker_holdings d a items = (d', Inr c)"
  shows "sync_broker_holdings d' a items = (d', Inr \<lparr>added = 0, updated = 0, removed = 0\<rparr>)"
proof -
  let ?E = "list_holdings d a"
  let ?em = "dict_by_ticker ?E"
  let ?tk = "\<lambda>i. upper (i_ticker i)"
  from sync_success_parts[OF first] obtain acct d1 bt ad up n where
    acc: "accounts d a = Some acct"
    and loop: "sync_items ?em a items d {} 0 0 = Inr (d1, bt, ad, up)"
    and rm: "remove_missing d1 a (dict_keys ?E) bt 0 = (d', n)"
    by blast
  have bt: "bt = ?tk ` set items"
    using sync_items_tickers[OF loop] by simp
  have st_bt: "set (snapshot_tickers items) \<subseteq> bt"
    unfolding bt by (auto simp: snapshot_tickers_def)
  have E_mem: "h \<in> set ?E \<longleftrightarrow> h \<in> set (holdings d) \<and> h_account_id h = a \<and> 0 < h_shares h" for h
    by (auto simp: list_holdings_def)
  have em_ok: "\<forall>t old. t \<in> set (snapshot_tickers items) \<longrightarrow> ?em t = Some old \<longrightarrow>
             select_holding d a t = Some old"
  proof (intro allI impI)
    fix t old assume "?em t = Some old"
    then have "old \<in> set ?E" "h_ticker old = t" using dict_SomeD by blast+
    then show "select_holding d a t = Some old"
      using wf E_mem by (intro select_holding_unique) (auto simp: holding_at_def)
  qed
  from sync_items_first[OF loop wf dist em_ok] have
    wf1: "wf_holdings d1" and acc1: "accounts d1 = accounts d"
    and items1: "\<forall>i \<in> set items. 0 < i_shares i \<longrightarrow>
            (\<exists>h. select_holding d1 a (?tk i) = Some h \<and>
                 h_shares h = i_shares i \<and> \<bar>h_avg_cost h - i_avg_cost i\<bar> \<le> 1 / 100)"
    and rows1: "\<forall>h \<in> set (holdings d1). h \<in> set (holdings d) \<or>
            (h_account_id h = a \<and> h_ticker h \<in> set (snapshot_tickers items))"
    by blast+
  from remove_missing_holdings[OF rm] have
    acc2: "accounts d' = accounts d1" and sub2: "set (holdings d') \<subseteq> set (holdings d1)"
    and mem2: "\<forall>h \<in> set (holdings d1).
        h \<in> set (holdings d') \<longleftrightarrow>
          \<not> (h_account_id h = a \<and> (\<exists>k \<in> set (dict_keys ?E). k \<notin> bt \<and> h_ticker h = upper k))"
    by blast+
  have wf2: "wf_holdings d'" using wf_remove_missing[OF wf1 rm] .
  let ?E2 = "list_holdings d' a"
  let ?em2 = "dict_by_ticker ?E2"
  have E2_mem: "h \<in> set ?E2 \<longleftrightarrow> h \<in> set (holdings d') \<and> h_account_id h = a \<and> 0 < h_shares h" for h
    by (auto simp: list_holdings_def)
  have upper_keys: "upper k = k" if "k \<in> set (dict_keys ?E)" for k
  proof -
    from that obtain h where "h \<in> set ?E" "h_ticker h = k"
      unfolding set_dict_keys by auto
    then show ?thesis using wf E_mem by (auto simp: wf_holdings_def)
  qed
  have match: "\<forall>i \<in> set items. 0 < i_shares i \<longrightarrow>
             (\<exists>old. ?em2 (?tk i) = Some old \<and> h_shares old = i_shares i \<and>
                    \<bar>h_avg_cost old - i_avg_cost i\<bar> \<le> 1 / 100)"
  proof (intro ballI impI)
    fix i assume i: "i \<in> set items" and s: "0 < i_shares i"
    from items1 i s obtain h where
      sel: "select_holding d1 a (?tk i) = Some h" and hs: "h_shares h = i_shares i"
      and hc: "\<bar>h_avg_cost h - i_avg_cost i\<bar> \<le> 1 / 100"
      by blast
    from select_holding_mem[OF sel] have h1: "h \<in> set (holdings d1)"
      and hk: "h_account_id h = a" "h_ticker h = ?tk i"
      by (simp_all add: holding_at_def)
    have "?tk i \<in> bt" using i unfolding bt by simp
    then have "\<not> (\<exists>k \<in> set (dict_keys ?E). k \<notin> bt \<and> h_ticker h = upper k)"
      using hk upper_keys by auto
    with mem2 h1 have h2: "h \<in> set (holdings d')" by blast
    then have hE: "h \<in> set ?E2" using hk s hs by (simp add: E2_mem)
    then have "?em2 (?tk i) \<noteq> None"
      using dict_NoneD[of ?E2 "?tk i"] hk by force
    then obtain old where o: "?em2 (?tk i) = Some old" by auto
    then have "old \<in> set ?E2" "h_ticker old = ?tk i" using dict_SomeD by blast+
    then have "select_holding d' a (?tk i) = Some old"
      using wf2 E2_mem by (intro select_holding_unique) (auto simp: holding_at_def)
    moreover have "select_holding d' a (?tk i) = Some h"
      using wf2 h2 hk by (intro select_holding_unique) (auto simp: holding_at_def)
    ultimately have "old = h" by simp
    with o hs hc show "\<exists>old. ?em2 (?tk i) = Some old \<and> h_shares old = i_shares i \<and>
                    \<bar>h_avg_cost old - i_avg_cost i\<bar> \<le> 1 / 100"
      by blast
  qed
  have loop2: "sync_items ?em2 a items d' {} 0 0 = Inr (d', bt, 0, 0)"
    using sync_items_noop[OF match, of a d' "{}" 0 0] bt by simp
  have keys2: "\<forall>k \<in> set (dict_keys ?E2). k \<in> bt"
  proof
    fix k assume "k \<in> set (dict_keys ?E2)"
    then obtain h where hE: "h \<in> set ?E2" and hk: "h_ticker h = k"
      unfolding set_dict_keys by auto
    then have h2: "h \<in> set (holdings d')" and ha: "h_account_id h = a" and hp: "0 < h_shares h"
      by (simp_all add: E2_mem)
    then have h1: "h \<in> set (holdings d1)" using sub2 by auto
    show "k \<in> bt"
    proof (rule ccontr)
      assume nb: "k \<notin> bt"
      then have "h_ticker h \<notin> set (snapshot_tickers items)" using st_bt hk by auto
      with rows1 h1 have "h \<in> set (holdings d)" by blast
      then have "h \<in> set ?E" using ha hp by (simp add: E_mem)
      then have kk: "k \<in> set (dict_keys ?E)" using hk unfolding set_dict_keys by auto
      then have "h_ticker h = upper k" using hk upper_keys by simp
      with kk nb ha have "h_account_id h = a \<and> (\<exists>k \<in> set (dict_keys ?E). k \<notin> bt \<and> h_ticker h = upper k)"
        by blast
      with mem2 h1 have "h \<notin> set (holdings d')" by blast
      with h2 show False by simp
    qed
  qed
  have rm2: "remove_missing d' a (dict_keys ?E2) bt 0 = (d', 0)"
    using remove_missing_noop[OF keys2] .
  have "accounts d' a = Some acct" using acc acc1 acc2 by simp
  then show ?thesis
    using loop2 rm2
    by (simp add: sync_broker_holdings_def get_account_def get_connection_def)
qed

lemmas sync_defs = sync_broker_holdings_def get_account_def get_connection_def list_holdings_def
  dict_by_ticker_def dict_keys_def remove_holding_def Let_def

text \<open>
  C9, as stated: for any snapshot, a second reconciliation reports no addition, update or
  removal. With the same ticker twice in the snapshot it does not: both entries are
  compared with the holding read before the loop, so against a holding of 10 shares the
  snapshot \<open>[AAPL 10, AAPL 5]\<close> leaves 5 shares the first time and 10 the second, and
  each run reports one update.
\<close>

theorem resync_with_duplicate_tickers_counterexample:
  "snd (sync_broker_holdings dup_db 1 dup_snapshot) =
     Inr \<lparr>added = 0, updated = 1, removed = 0\<rparr> \<and>
   snd (sync_broker_holdings (fst (sync_broker_holdings dup_db 1 dup_snapshot)) 1 dup_snapshot) =
     Inr \<lparr>added = 0, updated = 1, removed = 0\<rparr>"
  by (simp add: sync_defs run_defs dup_db_def dup_snapshot_def empty_db_def)

text \<open>
  C9, amended. On a store that satisfies the uniqueness constraint of \<open>holdings\<close> and
  holds upper-case tickers, for a snapshot whose entries with a positive share count have
  pairwise different tickers: if a reconciliation succeeds, reconciling the same snapshot
  again succeeds, changes nothing and reports \<open>added = 0, updated = 0, removed = 0\<close>.
  The scenario of the specification (\<open>AAPL 10 @ 178.5\<close> against no holdings: one
  addition, then nothing) is the instance below.
\<close>

theorem resync_is_idempotent:
  assumes "wf_holdings d"
      and "distinct (snapshot_tickers items)"
      and "sync_broker_holdings d a items = (d', Inr c)"
  shows "sync_broker_holdings d' a items = (d', Inr \<lparr>added = 0, updated = 0, removed = 0\<rparr>)"
  using assms by (rule sync_twice)

theorem resync_is_idempotent_witness:
  "snd (sync_broker_holdings empty_db 1 aapl_snapshot) =
     Inr \<lparr>added = 1, updated = 0, removed = 0\<rparr> \<and>
   sync_broker_holdings (fst (sync_broker_holdings empty_db 1 aapl_snapshot)) 1 aapl_snapshot =
     (fst (sync_broker_holdings empty_db 1 aapl_snapshot),
      Inr \<lparr>added = 0, updated = 0, removed = 0\<rparr>)"
proof -
  have wf: "wf_holdings empty_db"
    by (simp add: wf_holdings_def empty_db_def)
  have di: "distinct (snapshot_tickers aapl_snapshot)"
    by (simp add: snapshot_tickers_def aapl_snapshot_def)
  have first: "snd (sync_broker_holdings empty_db 1 aapl_snapshot) =
     Inr \<lparr>added = 1, updated = 0, removed = 0\<rparr>"
    by (simp add: sync_defs run_defs aapl_snapshot_def empty_db_def)
  then have run: "sync_broker_holdings empty_db 1 aapl_snapshot =
     (fst (sync_broker_holdings empty_db 1 aapl_snapshot),
      Inr \<lparr>added = 1, updated = 0, removed = 0\<rparr>)"
    by (metis prod.collapse)
  show ?thesis
    using first resync_is_idempotent [OF wf di run] by blast
qed

end
